theory Spec2Isabelle
  imports Main "HOL-Library.Sublist" "HOL-Library.Char_ord" "HOL-Library.List_Lexorder"
    "HOL-Library.Product_Lexorder"
begin

section \<open>The task store of the task-management backend\<close>

text \<open>
  The backend (\<^verbatim>\<open>src/backend/server.ts\<close>) keeps its tasks in one SQL table and
  answers every request with a handful of parameterised statements. The table is
  modelled as the list of its rows, a handler as a function from the table (and the
  request) to the response and the table afterwards. A handler behind
  \<^verbatim>\<open>authenticateToken\<close> takes the caller \<open>u\<close>, which is \<^verbatim>\<open>req.user.user_id\<close>; \<open>now\<close>
  is the time value the clock shows during the request, in milliseconds since the
  epoch. The statements of one request run without another request in between. A
  statement or an expression that throws ends in the handler's \<^verbatim>\<open>catch\<close> block.

  A row is the \<^verbatim>\<open>tasks\<close> table of \<^verbatim>\<open>initializeDatabase\<close>: every column but
  \<^verbatim>\<open>order_index\<close> is \<^verbatim>\<open>TEXT\<close>, also the dates, and is a string here; a nullable
  column is an \<open>option\<close>; \<^verbatim>\<open>order_index INTEGER\<close> is an \<open>int\<close> that the statements
  keep within 32 bits.
\<close>

record task =
  task_id :: string
  user_id :: string
  title :: string
  description :: "string option"
  due_date :: "string option"
  priority :: "string option"
  category :: "string option"
  tags :: "string option"
  status :: string
  order_index :: int
  share_expires_at :: "string option"
  created_at :: string
  updated_at :: string

type_synonym db = "task list"

text \<open>\<^verbatim>\<open>task_id TEXT PRIMARY KEY\<close>: no two rows of the table share a task id.\<close>

definition wf_db :: "db \<Rightarrow> bool" where
  "wf_db d = distinct (map task_id d)"

text \<open>The values of an \<^verbatim>\<open>INTEGER\<close> column; a statement that leaves them throws.\<close>

definition int4 :: "int \<Rightarrow> bool" where
  "int4 i = (- 2147483648 \<le> i \<and> i \<le> 2147483647)"

text \<open>The caller owns the task with this id: a row \<^verbatim>\<open>WHERE task_id = $1 AND user_id = $2\<close>.\<close>

definition owned :: "db \<Rightarrow> string \<Rightarrow> string \<Rightarrow> bool" where
  "owned d u tid = (\<exists>t \<in> set d. task_id t = tid \<and> user_id t = u)"

subsection \<open>The clock\<close>

text \<open>
  \<^verbatim>\<open>Date.prototype.toISOString\<close> on a time value: the civil date of the day number,
  then the time of day, as \<^verbatim>\<open>YYYY-MM-DDTHH:mm:ss.sssZ\<close>. Years outside 0 to 9999 are
  written with a sign and six digits.
\<close>

definition digit_char :: "nat \<Rightarrow> char" where
  "digit_char k = ''0123456789'' ! (k mod 10)"

definition pad :: "nat \<Rightarrow> int \<Rightarrow> string" where
  "pad w n = map (\<lambda>i. digit_char (nat n div 10 ^ i)) (rev [0..<w])"

definition year_text :: "int \<Rightarrow> string" where
  "year_text y =
     (if 0 \<le> y \<and> y \<le> 9999 then pad 4 y
      else (if y < 0 then ''-'' else ''+'') @ pad 6 \<bar>y\<bar>)"

definition toISOString :: "int \<Rightarrow> string" where
  "toISOString ms =
     (let days = ms div 86400000;
          r = ms mod 86400000;
          z = days + 719468;
          era = z div 146097;
          doe = z mod 146097;
          yoe = (doe - doe div 1460 + doe div 36524 - doe div 146096) div 365;
          doy = doe - (365 * yoe + yoe div 4 - yoe div 100);
          mp = (5 * doy + 2) div 153;
          dd = doy - (153 * mp + 2) div 5 + 1;
          mm = (if mp < 10 then mp + 3 else mp - 9);
          yy = yoe + era * 400 + (if mm \<le> 2 then 1 else 0)
      in year_text yy @ ''-'' @ pad 2 mm @ ''-'' @ pad 2 dd @ ''T'' @
         pad 2 (r div 3600000) @ '':'' @ pad 2 (r div 60000 mod 60) @ '':'' @
         pad 2 (r div 1000 mod 60) @ ''.'' @ pad 3 (r mod 1000) @ ''Z'')"

subsection \<open>Responses\<close>

text \<open>
  \<^verbatim>\<open>createErrorResponse(message, error, errorCode)\<close>. The \<^verbatim>\<open>details\<close> it copies
  from a caught exception are left out; the clock it reads is the request's.
\<close>

record error_response =
  success :: bool
  message :: string
  error_code :: "string option"
  timestamp :: string

definition createErrorResponse :: "string \<Rightarrow> string \<Rightarrow> int \<Rightarrow> error_response" where
  "createErrorResponse msg code now =
     \<lparr>success = False, message = msg,
      error_code = (if code = [] then None else Some code), timestamp = toISOString now\<rparr>"

text \<open>The columns the public route selects: neither \<^verbatim>\<open>user_id\<close> nor \<^verbatim>\<open>order_index\<close>.\<close>

record public_task =
  p_task_id :: string
  p_title :: string
  p_description :: "string option"
  p_due_date :: "string option"
  p_priority :: "string option"
  p_category :: "string option"
  p_tags :: "string option"
  p_status :: string
  p_share_expires_at :: "string option"

datatype body =
    TaskBody task
  | TaskListBody "task list"
  | TaskPageBody "task list" nat
  | UpdatedCountBody nat
  | DeletedCountBody nat
  | ShareBody string string
  | MessageBody string
  | PublicTaskBody public_task
  | ErrorBody error_response

text \<open>A response is the HTTP status and the JSON body.\<close>

type_synonym response = "nat \<times> body"

definition error_json :: "nat \<Rightarrow> string \<Rightarrow> string \<Rightarrow> int \<Rightarrow> response" where
  "error_json code msg ecode now = (code, ErrorBody (createErrorResponse msg ecode now))"

text \<open>The \<^verbatim>\<open>catch\<close> block every handler ends with.\<close>

definition internal_error :: "int \<Rightarrow> response" where
  "internal_error now = error_json 500 ''Internal server error'' ''INTERNAL_SERVER_ERROR'' now"

subsection \<open>The two database handles\<close>

text \<open>
  \<^verbatim>\<open>server.ts\<close> declares one database handle, \<^verbatim>\<open>const db = new PGlite()\<close>, and the
  routes that list and create tasks query through it. Every other task route begins
  with \<^verbatim>\<open>const client = await pool.connect()\<close>, and \<^verbatim>\<open>pool\<close> is declared and imported
  nowhere in the file: evaluating it throws a \<^verbatim>\<open>ReferenceError\<close>, inside the handler's
  \<^verbatim>\<open>try\<close>. So the connection such a handler asks for is never there.
\<close>

definition pool_connect :: "unit option" where
  "pool_connect = None"

subsection \<open>SQL statements on the table\<close>

text \<open>\<^verbatim>\<open>WHERE task_id = $1 AND user_id = $2\<close>, the condition of every owner-scoped statement.\<close>

definition is_row :: "string \<Rightarrow> string \<Rightarrow> task \<Rightarrow> bool" where
  "is_row u tid t = (task_id t = tid \<and> user_id t = u)"

text \<open>\<^verbatim>\<open>WHERE task_id = ANY($1) AND user_id = $2\<close>, the condition of the bulk statements.\<close>

definition in_batch :: "string \<Rightarrow> string list \<Rightarrow> task \<Rightarrow> bool" where
  "in_batch u ids t = (task_id t \<in> set ids \<and> user_id t = u)"

text \<open>\<^verbatim>\<open>SELECT COUNT(*) FROM tasks WHERE task_id = ANY($1) AND user_id = $2\<close>\<close>

definition count_owned :: "db \<Rightarrow> string \<Rightarrow> string list \<Rightarrow> nat" where
  "count_owned d u ids = length (filter (in_batch u ids) d)"

text \<open>\<^verbatim>\<open>UPDATE tasks SET ... WHERE ...\<close>: the rows that match are rewritten in place.\<close>

definition sql_update :: "(task \<Rightarrow> bool) \<Rightarrow> (task \<Rightarrow> task) \<Rightarrow> db \<Rightarrow> db" where
  "sql_update P f d = map (\<lambda>t. if P t then f t else t) d"

text \<open>\<^verbatim>\<open>DELETE FROM tasks WHERE ...\<close>\<close>

definition sql_delete :: "(task \<Rightarrow> bool) \<Rightarrow> db \<Rightarrow> db" where
  "sql_delete P d = filter (\<lambda>t. \<not> P t) d"

text \<open>
  \<^verbatim>\<open>INSERT INTO tasks ... RETURNING *\<close>: a second row with the same primary key is
  refused, and so is an order index that is no \<^verbatim>\<open>INTEGER\<close>. \<open>None\<close> is the throw.
\<close>

definition sql_insert :: "task \<Rightarrow> db \<Rightarrow> db option" where
  "sql_insert t d =
     (if task_id t \<in> set (map task_id d) \<or> \<not> int4 (order_index t) then None
      else Some (d @ [t]))"

text \<open>
  \<^verbatim>\<open>SELECT COALESCE(MAX(order_index), -1) + 1 as next_order FROM tasks WHERE user_id = $1\<close>.
  The sum is an \<^verbatim>\<open>INTEGER\<close> sum: above 2147483647 the statement throws (\<open>None\<close>).
\<close>

definition max_order :: "db \<Rightarrow> string \<Rightarrow> int option" where
  "max_order d u =
     (case map order_index (filter (\<lambda>t. user_id t = u) d) of
        [] \<Rightarrow> None
      | x # xs \<Rightarrow> Some (fold max xs x))"

definition next_order :: "db \<Rightarrow> string \<Rightarrow> int option" where
  "next_order d u =
     (let s = (case max_order d u of None \<Rightarrow> - 1 | Some m \<Rightarrow> m) + 1
      in if int4 s then Some s else None)"

subsection \<open>Request bodies\<close>

text \<open>
  The JSON body of a request, with the fields some handler reads. Of a field the outer
  \<open>option\<close> is whether the body has the key (\<^verbatim>\<open>hasOwnProperty\<close>, \<^verbatim>\<open>!== undefined\<close>),
  the inner one is JSON \<^verbatim>\<open>null\<close>. \<^verbatim>\<open>task_ids\<close> and \<^verbatim>\<open>order\<close> are \<open>None\<close> when the key is
  missing or its value is no array.
\<close>

record json_body =
  b_task_id :: "string option option"
  b_title :: "string option option"
  b_description :: "string option option"
  b_due_date :: "string option option"
  b_priority :: "string option option"
  b_category :: "string option option"
  b_tags :: "string option option"
  b_status :: "string option option"
  b_order_index :: "int option option"
  b_share_expires_at :: "string option option"
  b_task_ids :: "string list option"
  b_order :: "string list option"

text \<open>
  JavaScript truthiness of a string field, as in \<^verbatim>\<open>if (v)\<close>, \<^verbatim>\<open>!v\<close> and \<^verbatim>\<open>v || null\<close>:
  \<^verbatim>\<open>undefined\<close>, \<^verbatim>\<open>null\<close> and the empty string are falsy. \<open>or_null\<close> is \<^verbatim>\<open>v || null\<close>.
\<close>

definition or_null :: "string option option \<Rightarrow> string option" where
  "or_null v = (case v of Some (Some s) \<Rightarrow> if s = [] then None else Some s | _ \<Rightarrow> None)"

text \<open>The same on a query parameter, which is a string or missing.\<close>

definition truthy :: "string option \<Rightarrow> bool" where
  "truthy v = (case v of None \<Rightarrow> False | Some s \<Rightarrow> s \<noteq> [])"

section \<open>Creating a task\<close>

text \<open>
  \<^verbatim>\<open>validationData\<close>, the object the handler of \<^verbatim>\<open>POST /api/tasks\<close> builds from the body
  and validates. The title is passed on as it came; an order index is 0 when the body
  has none.
\<close>

record validation_data =
  v_user_id :: string
  v_title :: "string option option"
  v_description :: "string option"
  v_due_date :: "string option"
  v_priority :: "string option"
  v_category :: "string option"
  v_tags :: "string option"
  v_status :: string
  v_order_index :: "int option"
  v_share_expires_at :: "string option"

definition validationData :: "string \<Rightarrow> json_body \<Rightarrow> validation_data" where
  "validationData u b =
     \<lparr>v_user_id = u,
      v_title = b_title b,
      v_description = or_null (b_description b),
      v_due_date = or_null (b_due_date b),
      v_priority = or_null (b_priority b),
      v_category = or_null (b_category b),
      v_tags = or_null (b_tags b),
      v_status = (case or_null (b_status b) of None \<Rightarrow> ''incomplete'' | Some s \<Rightarrow> s),
      v_order_index = (case b_order_index b of None \<Rightarrow> Some 0 | Some i \<Rightarrow> i),
      v_share_expires_at = or_null (b_share_expires_at b)\<rparr>"

text \<open>The enums of \<^verbatim>\<open>schema.ts\<close>.\<close>

definition status_enum :: "string list" where
  "status_enum = [''incomplete'', ''completed'', ''archived'']"

definition priority_enum :: "string list" where
  "priority_enum = [''low'', ''medium'', ''high'']"

text \<open>A nullable string of bounded length: \<^verbatim>\<open>z.string().min(lo).max(hi).nullable()\<close>.\<close>

definition nullable_len :: "nat \<Rightarrow> nat \<Rightarrow> string option \<Rightarrow> bool" where
  "nullable_len lo hi v = (case v of None \<Rightarrow> True | Some s \<Rightarrow> lo \<le> length s \<and> length s \<le> hi)"

text \<open>
  \<^verbatim>\<open>z.coerce.date().nullable()\<close>: \<^verbatim>\<open>null\<close>, or a text of which \<^verbatim>\<open>new Date\<close> makes a
  valid date. What \<^verbatim>\<open>new Date\<close> makes of a text is the JavaScript engine's matter
  (beyond the ISO format it is implementation-defined), so it is a parameter
  \<open>Date_parse\<close> of the handlers that need it: the time value of a text, \<open>None\<close> for
  \<^verbatim>\<open>Invalid Date\<close>.
\<close>

definition nullable_date :: "(string \<Rightarrow> int option) \<Rightarrow> string option \<Rightarrow> bool" where
  "nullable_date Date_parse v = (case v of None \<Rightarrow> True | Some s \<Rightarrow> Date_parse s \<noteq> None)"

text \<open>\<^verbatim>\<open>createTaskInputSchema.safeParse(validationData).success\<close>\<close>

definition createTaskInputSchema :: "(string \<Rightarrow> int option) \<Rightarrow> validation_data \<Rightarrow> bool" where
  "createTaskInputSchema Date_parse v =
     (1 \<le> length (v_user_id v) \<and>
      (case v_title v of Some (Some s) \<Rightarrow> 1 \<le> length s \<and> length s \<le> 255 | _ \<Rightarrow> False) \<and>
      nullable_len 0 1000 (v_description v) \<and>
      nullable_date Date_parse (v_due_date v) \<and>
      (case v_priority v of None \<Rightarrow> True | Some p \<Rightarrow> p \<in> set priority_enum) \<and>
      nullable_len 1 100 (v_category v) \<and>
      nullable_len 0 500 (v_tags v) \<and>
      v_status v \<in> set status_enum \<and>
      (case v_order_index v of None \<Rightarrow> False | Some i \<Rightarrow> 0 \<le> i) \<and>
      nullable_date Date_parse (v_share_expires_at v))"

text \<open>
  The row the handler inserts, from the validated data, the order index, the id that
  \<^verbatim>\<open>uuidv4()\<close> returned and the clock.
\<close>

definition new_row :: "validation_data \<Rightarrow> int \<Rightarrow> string \<Rightarrow> int \<Rightarrow> task" where
  "new_row v oi new_id now =
     \<lparr>task_id = new_id, user_id = v_user_id v,
      title = (case v_title v of Some (Some s) \<Rightarrow> s | _ \<Rightarrow> []),
      description = v_description v, due_date = v_due_date v,
      priority = v_priority v, category = v_category v, tags = v_tags v,
      status = v_status v, order_index = oi,
      share_expires_at = v_share_expires_at v,
      created_at = toISOString now, updated_at = toISOString now\<rparr>"

text \<open>
  \<^verbatim>\<open>POST /api/tasks\<close>, through \<^verbatim>\<open>db\<close>. An order index of 0 counts as not given and is
  replaced by the next one of the caller. Either statement may throw.
\<close>

definition create_task ::
  "(string \<Rightarrow> int option) \<Rightarrow> db \<Rightarrow> string \<Rightarrow> json_body \<Rightarrow> string \<Rightarrow> int \<Rightarrow> response \<times> db" where
  "create_task Date_parse d u b new_id now =
     (let v = validationData u b in
      if \<not> createTaskInputSchema Date_parse v
      then (error_json 400 ''Validation failed'' ''VALIDATION_ERROR'' now, d)
      else
        (case (if v_order_index v = Some 0 then next_order d u else v_order_index v) of
           None \<Rightarrow> (internal_error now, d)
         | Some oi \<Rightarrow>
             (case sql_insert (new_row v oi new_id now) d of
                None \<Rightarrow> (internal_error now, d)
              | Some d' \<Rightarrow> ((201, TaskBody (new_row v oi new_id now)), d'))))"

section \<open>The single-task routes\<close>

text \<open>
  Each of these handlers asks \<^verbatim>\<open>pool\<close> for a connection first. What follows the
  \<^verbatim>\<open>Some\<close> in a definition is the rest of its \<^verbatim>\<open>try\<close> block, as it is written.
\<close>

definition not_found :: "int \<Rightarrow> response" where
  "not_found now = error_json 404 ''Task not found'' ''TASK_NOT_FOUND'' now"

subsection \<open>Reading one task\<close>

text \<open>\<^verbatim>\<open>GET /api/tasks/:task_id\<close>\<close>

definition get_task :: "db \<Rightarrow> string \<Rightarrow> string \<Rightarrow> int \<Rightarrow> response" where
  "get_task d u tid now =
     (case pool_connect of
        None \<Rightarrow> internal_error now
      | Some client \<Rightarrow>
          (case filter (is_row u tid) d of
             [] \<Rightarrow> not_found now
           | t # _ \<Rightarrow> (200, TaskBody t)))"

subsection \<open>Partial update\<close>

text \<open>
  \<^verbatim>\<open>updateTaskInputSchema\<close> of \<^verbatim>\<open>schema.ts\<close>, on the fields the model carries: a
  \<^verbatim>\<open>task_id\<close> that is a string, the others optional. The server imports it; the handler
  below never calls it.
\<close>

definition required_ok :: "'a option option \<Rightarrow> ('a \<Rightarrow> bool) \<Rightarrow> bool" where
  "required_ok v ok = (case v of None \<Rightarrow> True | Some None \<Rightarrow> False | Some (Some x) \<Rightarrow> ok x)"

definition nullable_ok :: "'a option option \<Rightarrow> ('a \<Rightarrow> bool) \<Rightarrow> bool" where
  "nullable_ok v ok = (case v of None \<Rightarrow> True | Some None \<Rightarrow> True | Some (Some x) \<Rightarrow> ok x)"

definition updateTaskInputSchema :: "(string \<Rightarrow> int option) \<Rightarrow> json_body \<Rightarrow> bool" where
  "updateTaskInputSchema Date_parse b =
     ((case b_task_id b of Some (Some s) \<Rightarrow> True | _ \<Rightarrow> False) \<and>
      required_ok (b_title b) (\<lambda>s. 1 \<le> length s \<and> length s \<le> 255) \<and>
      nullable_ok (b_description b) (\<lambda>s. length s \<le> 1000) \<and>
      nullable_ok (b_due_date b) (\<lambda>s. Date_parse s \<noteq> None) \<and>
      nullable_ok (b_priority b) (\<lambda>p. p \<in> set priority_enum) \<and>
      nullable_ok (b_category b) (\<lambda>s. 1 \<le> length s \<and> length s \<le> 100) \<and>
      nullable_ok (b_tags b) (\<lambda>s. length s \<le> 500) \<and>
      required_ok (b_status b) (\<lambda>s. s \<in> set status_enum) \<and>
      required_ok (b_order_index b) (\<lambda>i. 0 \<le> i) \<and>
      nullable_ok (b_share_expires_at b) (\<lambda>s. Date_parse s \<noteq> None))"

text \<open>
  The loop over \<^verbatim>\<open>allowedFields\<close>: the names of the fields the body has, in the order
  of that list. Each gets one placeholder and one value.
\<close>

definition updateFields :: "json_body \<Rightarrow> string list" where
  "updateFields b =
     (if b_title b \<noteq> None then [''title''] else []) @
     (if b_description b \<noteq> None then [''description''] else []) @
     (if b_due_date b \<noteq> None then [''due_date''] else []) @
     (if b_priority b \<noteq> None then [''priority''] else []) @
     (if b_category b \<noteq> None then [''category''] else []) @
     (if b_tags b \<noteq> None then [''tags''] else []) @
     (if b_status b \<noteq> None then [''status''] else []) @
     (if b_order_index b \<noteq> None then [''order_index''] else []) @
     (if b_share_expires_at b \<noteq> None then [''share_expires_at''] else [])"

text \<open>One \<^verbatim>\<open>field = $n\<close> of the \<^verbatim>\<open>SET\<close> list, for a nullable and for a \<^verbatim>\<open>NOT NULL\<close> column.\<close>

definition set_field :: "'a option \<Rightarrow> 'a \<Rightarrow> 'a" where
  "set_field v old = (case v of None \<Rightarrow> old | Some x \<Rightarrow> x)"

definition set_required :: "'a option option \<Rightarrow> 'a \<Rightarrow> 'a" where
  "set_required v old = (case v of Some (Some x) \<Rightarrow> x | _ \<Rightarrow> old)"

text \<open>The \<^verbatim>\<open>SET\<close> list: every field of the body as it was sent, then \<^verbatim>\<open>updated_at\<close>.\<close>

definition apply_update :: "json_body \<Rightarrow> int \<Rightarrow> task \<Rightarrow> task" where
  "apply_update b now t =
     t\<lparr>title := set_required (b_title b) (title t),
       description := set_field (b_description b) (description t),
       due_date := set_field (b_due_date b) (due_date t),
       priority := set_field (b_priority b) (priority t),
       category := set_field (b_category b) (category t),
       tags := set_field (b_tags b) (tags t),
       status := set_required (b_status b) (status t),
       order_index := set_required (b_order_index b) (order_index t),
       share_expires_at := set_field (b_share_expires_at b) (share_expires_at t),
       updated_at := toISOString now\<rparr>"

text \<open>
  \<^verbatim>\<open>PATCH /api/tasks/:task_id\<close>. With \<open>k\<close> fields sent the loop leaves \<^verbatim>\<open>paramIndex\<close> at
  \<open>k + 1\<close>; \<^verbatim>\<open>updated_at\<close> takes that placeholder and \<^verbatim>\<open>paramIndex\<close> goes to \<open>k + 2\<close>.
  Then \<^verbatim>\<open>task_id\<close> and \<^verbatim>\<open>user_id\<close> are pushed, which makes \<open>k + 3\<close> values, while the
  \<^verbatim>\<open>WHERE\<close> clause is written with \<^verbatim>\<open>$(paramIndex - 1)\<close> and \<^verbatim>\<open>$(paramIndex)\<close>: the
  statement has \<open>k + 2\<close> placeholders, and the database refuses a statement whose
  values do not match its placeholders in number. Were they to match, the clause would
  compare \<^verbatim>\<open>task_id\<close> with the value at \<open>k + 1\<close>, the time, and \<^verbatim>\<open>user_id\<close> with the one
  at \<open>k + 2\<close>, the task id.
\<close>

definition update_task :: "db \<Rightarrow> string \<Rightarrow> string \<Rightarrow> json_body \<Rightarrow> int \<Rightarrow> response \<times> db" where
  "update_task d u tid b now =
     (case pool_connect of
        None \<Rightarrow> (internal_error now, d)
      | Some client \<Rightarrow>
          (case filter (is_row u tid) d of
             [] \<Rightarrow> (not_found now, d)
           | existing # _ \<Rightarrow>
               let k = length (updateFields b) in
               if k = 0
               then (error_json 400 ''No valid fields to update'' ''NO_UPDATE_FIELDS'' now, d)
               else
                 let paramIndex = k + 2;
                     params = k + 1 + 2
                 in if params \<noteq> paramIndex then (internal_error now, d)
                    else
                      (case filter (is_row tid (toISOString now)) d of
                         [] \<Rightarrow> ((200, MessageBody []), d)
                       | t # _ \<Rightarrow>
                           ((200, TaskBody (apply_update b now t)),
                            sql_update (is_row tid (toISOString now)) (apply_update b now) d))))"

subsection \<open>Delete\<close>

text \<open>\<^verbatim>\<open>DELETE /api/tasks/:task_id\<close>\<close>

definition delete_task :: "db \<Rightarrow> string \<Rightarrow> string \<Rightarrow> int \<Rightarrow> response \<times> db" where
  "delete_task d u tid now =
     (case pool_connect of
        None \<Rightarrow> (internal_error now, d)
      | Some client \<Rightarrow>
          (case filter (is_row u tid) d of
             [] \<Rightarrow> (not_found now, d)
           | _ # _ \<Rightarrow> ((200, MessageBody ''Task deleted successfully''),
                       sql_delete (is_row u tid) d)))"

subsection \<open>Duplicate\<close>

text \<open>The copy of a row: \<^verbatim>\<open>Copy of\<close> before the title, incomplete, not shared.\<close>

definition copy_row :: "task \<Rightarrow> string \<Rightarrow> int \<Rightarrow> string \<Rightarrow> int \<Rightarrow> task" where
  "copy_row original u oi new_task_id now =
     \<lparr>task_id = new_task_id, user_id = u,
      title = ''Copy of '' @ title original,
      description = description original, due_date = due_date original,
      priority = priority original, category = category original,
      tags = tags original, status = ''incomplete'',
      order_index = oi, share_expires_at = None,
      created_at = toISOString now, updated_at = toISOString now\<rparr>"

text \<open>\<^verbatim>\<open>POST /api/tasks/:task_id/duplicate\<close>\<close>

definition duplicate_task :: "db \<Rightarrow> string \<Rightarrow> string \<Rightarrow> string \<Rightarrow> int \<Rightarrow> response \<times> db" where
  "duplicate_task d u tid new_task_id now =
     (case pool_connect of
        None \<Rightarrow> (internal_error now, d)
      | Some client \<Rightarrow>
          (case filter (is_row u tid) d of
             [] \<Rightarrow> (not_found now, d)
           | original # _ \<Rightarrow>
               (case next_order d u of
                  None \<Rightarrow> (internal_error now, d)
                | Some oi \<Rightarrow>
                    (case sql_insert (copy_row original u oi new_task_id now) d of
                       None \<Rightarrow> (internal_error now, d)
                     | Some d' \<Rightarrow>
                         ((201, TaskBody (copy_row original u oi new_task_id now)), d')))))"

subsection \<open>Toggle status\<close>

definition set_status :: "string \<Rightarrow> int \<Rightarrow> task \<Rightarrow> task" where
  "set_status s now t = t\<lparr>status := s, updated_at := toISOString now\<rparr>"

definition invalid_status :: "int \<Rightarrow> response" where
  "invalid_status now =
     error_json 400 ''Valid status required (incomplete or completed)'' ''INVALID_STATUS'' now"

text \<open>
  \<^verbatim>\<open>PATCH /api/tasks/:task_id/toggle-status\<close>. The check of the status comes before the
  connection is asked for.
\<close>

definition toggle_status :: "db \<Rightarrow> string \<Rightarrow> string \<Rightarrow> json_body \<Rightarrow> int \<Rightarrow> response \<times> db" where
  "toggle_status d u tid b now =
     (case or_null (b_status b) of
        None \<Rightarrow> (invalid_status now, d)
      | Some s \<Rightarrow>
          if s \<notin> set [''incomplete'', ''completed''] then (invalid_status now, d)
          else
            (case pool_connect of
               None \<Rightarrow> (internal_error now, d)
             | Some client \<Rightarrow>
                 (case filter (is_row u tid) d of
                    [] \<Rightarrow> (not_found now, d)
                  | t # _ \<Rightarrow> ((200, TaskBody (set_status s now t)),
                              sql_update (is_row u tid) (set_status s now) d))))"

section \<open>Share links\<close>

text \<open>\<^verbatim>\<open>30 * 24 * 60 * 60 * 1000\<close>, thirty days in milliseconds.\<close>

definition thirty_days :: int where
  "thirty_days = 30 * 24 * 60 * 60 * 1000"

text \<open>
  \<^verbatim>\<open>!currentExpiry || new Date(currentExpiry) <= now\<close>. The column is text: empty
  text is falsy, and of a text that is no date \<^verbatim>\<open>new Date\<close> makes \<^verbatim>\<open>Invalid Date\<close>,
  which is not \<open>\<le>\<close> anything.
\<close>

definition expired :: "(string \<Rightarrow> int option) \<Rightarrow> string option \<Rightarrow> int \<Rightarrow> bool" where
  "expired Date_parse currentExpiry now =
     (case currentExpiry of
        None \<Rightarrow> True
      | Some s \<Rightarrow> s = [] \<or> (case Date_parse s of None \<Rightarrow> False | Some e \<Rightarrow> e \<le> now))"

text \<open>
  \<^verbatim>\<open>POST /api/tasks/:task_id/share\<close>. \<open>origin\<close> is \<^verbatim>\<open>req.protocol + "://" + host\<close>.
\<close>

definition share_task ::
  "(string \<Rightarrow> int option) \<Rightarrow> db \<Rightarrow> string \<Rightarrow> string \<Rightarrow> string \<Rightarrow> int \<Rightarrow> response \<times> db" where
  "share_task Date_parse d u tid origin now =
     (case pool_connect of
        None \<Rightarrow> (internal_error now, d)
      | Some client \<Rightarrow>
          (case filter (is_row u tid) d of
             [] \<Rightarrow> (not_found now, d)
           | t # _ \<Rightarrow>
               let currentExpiry = share_expires_at t;
                   expiryDate = now + thirty_days;
                   share_url = origin @ ''/share/'' @ tid
               in if expired Date_parse currentExpiry now
                  then ((200, ShareBody share_url (toISOString expiryDate)),
                        sql_update (is_row u tid)
                          (\<lambda>r. r\<lparr>share_expires_at := Some (toISOString expiryDate),
                                 updated_at := toISOString now\<rparr>) d)
                  else ((200, ShareBody share_url (case currentExpiry of None \<Rightarrow> [] | Some s \<Rightarrow> s)),
                        d)))"

text \<open>
  \<^verbatim>\<open>WHERE task_id = $1 AND share_expires_at > $2\<close>, where \<^verbatim>\<open>$2\<close> is
  \<^verbatim>\<open>new Date().toISOString()\<close>: a comparison of two texts, character by character,
  which no row with a \<^verbatim>\<open>NULL\<close> expiry satisfies.
\<close>

definition shared_now :: "string \<Rightarrow> int \<Rightarrow> task \<Rightarrow> bool" where
  "shared_now tid now t =
     (task_id t = tid \<and>
      (case share_expires_at t of None \<Rightarrow> False | Some e \<Rightarrow> toISOString now < e))"

text \<open>The select list of the public route.\<close>

definition project :: "task \<Rightarrow> public_task" where
  "project t =
     \<lparr>p_task_id = task_id t, p_title = title t, p_description = description t,
      p_due_date = due_date t, p_priority = priority t, p_category = category t,
      p_tags = tags t, p_status = status t, p_share_expires_at = share_expires_at t\<rparr>"

text \<open>\<^verbatim>\<open>GET /api/public/tasks/:task_id\<close>, without authentication.\<close>

definition get_public_task :: "db \<Rightarrow> string \<Rightarrow> int \<Rightarrow> response" where
  "get_public_task d tid now =
     (case pool_connect of
        None \<Rightarrow> internal_error now
      | Some client \<Rightarrow>
          (case filter (shared_now tid now) d of
             [] \<Rightarrow> error_json 404 ''Shared task not found or expired'' ''SHARED_TASK_NOT_FOUND'' now
           | t # _ \<Rightarrow> (200, PublicTaskBody (project t))))"

section \<open>Bulk routes and reordering\<close>

text \<open>
  The three handlers check the array, ask for the connection and would then count the
  caller's rows among the ids before writing anything.
\<close>

definition invalid_access :: "int \<Rightarrow> response" where
  "invalid_access now =
     error_json 400 ''Some tasks not found or access denied'' ''INVALID_TASK_ACCESS'' now"

definition invalid_task_ids :: "int \<Rightarrow> response" where
  "invalid_task_ids now =
     error_json 400 ''Valid task_ids array required'' ''INVALID_TASK_IDS'' now"

text \<open>\<^verbatim>\<open>POST /api/tasks/bulk-complete\<close>\<close>

definition bulk_complete :: "db \<Rightarrow> string \<Rightarrow> json_body \<Rightarrow> int \<Rightarrow> response \<times> db" where
  "bulk_complete d u b now =
     (case b_task_ids b of
        None \<Rightarrow> (invalid_task_ids now, d)
      | Some ids \<Rightarrow>
          if length ids = 0 then (invalid_task_ids now, d)
          else
            (case pool_connect of
               None \<Rightarrow> (internal_error now, d)
             | Some client \<Rightarrow>
                 if count_owned d u ids \<noteq> length ids then (invalid_access now, d)
                 else ((200, UpdatedCountBody (length (filter (in_batch u ids) d))),
                       sql_update (in_batch u ids) (set_status ''completed'' now) d)))"

text \<open>The handler registered for \<^verbatim>\<open>DELETE /api/tasks/bulk-delete\<close>.\<close>

definition bulk_delete :: "db \<Rightarrow> string \<Rightarrow> json_body \<Rightarrow> int \<Rightarrow> response \<times> db" where
  "bulk_delete d u b now =
     (case b_task_ids b of
        None \<Rightarrow> (invalid_task_ids now, d)
      | Some ids \<Rightarrow>
          if length ids = 0 then (invalid_task_ids now, d)
          else
            (case pool_connect of
               None \<Rightarrow> (internal_error now, d)
             | Some client \<Rightarrow>
                 if count_owned d u ids \<noteq> length ids then (invalid_access now, d)
                 else ((200, DeletedCountBody (length (filter (in_batch u ids) d))),
                       sql_delete (in_batch u ids) d)))"

text \<open>
  One statement of the reorder loop:
  \<^verbatim>\<open>UPDATE tasks SET order_index = $1, updated_at = $2 WHERE task_id = $3 AND user_id = $4\<close>.
\<close>

definition reorder_step :: "string \<Rightarrow> int \<Rightarrow> nat \<times> string \<Rightarrow> db \<Rightarrow> db" where
  "reorder_step u now p d =
     sql_update (is_row u (snd p))
       (\<lambda>t. t\<lparr>order_index := int (fst p), updated_at := toISOString now\<rparr>) d"

text \<open>
  \<^verbatim>\<open>order.map((task_id, index) => client.query(...))\<close>: the statements are sent on the
  one connection in the order of the array, each with its index.
\<close>

definition reorder_all :: "string \<Rightarrow> int \<Rightarrow> string list \<Rightarrow> db \<Rightarrow> db" where
  "reorder_all u now order d = fold (reorder_step u now) (enumerate 0 order) d"

text \<open>The handler registered for \<^verbatim>\<open>PATCH /api/tasks/reorder\<close>.\<close>

definition reorder_tasks :: "db \<Rightarrow> string \<Rightarrow> json_body \<Rightarrow> int \<Rightarrow> response \<times> db" where
  "reorder_tasks d u b now =
     (case b_order b of
        None \<Rightarrow> (error_json 400 ''Valid order array required'' ''INVALID_ORDER'' now, d)
      | Some order \<Rightarrow>
          if length order = 0
          then (error_json 400 ''Valid order array required'' ''INVALID_ORDER'' now, d)
          else
            (case pool_connect of
               None \<Rightarrow> (internal_error now, d)
             | Some client \<Rightarrow>
                 if count_owned d u order \<noteq> length order then (invalid_access now, d)
                 else
                   let d' = reorder_all u now order d
                   in ((200, TaskListBody (sort_key order_index (filter (in_batch u order) d'))),
                       d')))"

section \<open>Listing tasks\<close>

subsection \<open>\<^verbatim>\<open>LIKE\<close> and \<^verbatim>\<open>ILIKE\<close>\<close>

text \<open>
  The pattern language of SQL \<^verbatim>\<open>LIKE\<close>: \<^verbatim>\<open>%\<close> stands for any run of characters,
  \<^verbatim>\<open>_\<close> for any one character, a backslash takes the next character literally, and
  the whole string must match. A pattern that ends in a lone backslash matches nothing.
\<close>

fun like_match :: "string \<Rightarrow> string \<Rightarrow> bool" where
  "like_match [] s = (s = [])"
| "like_match (p # ps) s =
     (if p = CHR ''%''
      then (like_match ps s \<or> (case s of [] \<Rightarrow> False | _ # cs \<Rightarrow> like_match (p # ps) cs))
      else if p = CHR ''_''
      then (case s of [] \<Rightarrow> False | _ # cs \<Rightarrow> like_match ps cs)
      else if p = CHR 0x5C
      then (case ps of
              [] \<Rightarrow> False
            | q # qs \<Rightarrow> (case s of [] \<Rightarrow> False | c # cs \<Rightarrow> c = q \<and> like_match qs cs))
      else (case s of [] \<Rightarrow> False | c # cs \<Rightarrow> c = p \<and> like_match ps cs))"

text \<open>\<^verbatim>\<open>ILIKE\<close> folds the letters A to Z of pattern and text to lower case first.\<close>

definition lower_char :: "char \<Rightarrow> char" where
  "lower_char c =
     (let n = (of_char c :: nat) in if 65 \<le> n \<and> n \<le> 90 then char_of (n + 32) else c)"

definition ilike_match :: "string \<Rightarrow> string \<Rightarrow> bool" where
  "ilike_match p s = like_match (map lower_char p) (map lower_char s)"

text \<open>On a nullable column the comparison with \<^verbatim>\<open>NULL\<close> is not true.\<close>

definition sql_like :: "string option \<Rightarrow> string \<Rightarrow> bool" where
  "sql_like col p = (case col of None \<Rightarrow> False | Some s \<Rightarrow> like_match p s)"

definition sql_ilike :: "string option \<Rightarrow> string \<Rightarrow> bool" where
  "sql_ilike col p = (case col of None \<Rightarrow> False | Some s \<Rightarrow> ilike_match p s)"

subsection \<open>\<^verbatim>\<open>parseInt\<close>\<close>

text \<open>
  A JavaScript number is a double: a non-negative integer of more than 53 bits is
  rounded to the nearest one with 53, a tie to the even one.
\<close>

function excess_bits :: "int \<Rightarrow> nat" where
  "excess_bits n = (if n < 9007199254740992 then 0 else Suc (excess_bits (n div 2)))"
  by pat_completeness auto
termination by (relation "measure nat") auto

declare excess_bits.simps [simp del]

definition to_double :: "int \<Rightarrow> int" where
  "to_double n =
     (let e = excess_bits n in
      if e = 0 then n
      else
        let q = n div 2 ^ e;
            r = n mod 2 ^ e;
            h = 2 ^ (e - 1)
        in (if r < h \<or> (r = h \<and> even q) then q else q + 1) * 2 ^ e)"

text \<open>
  \<^verbatim>\<open>parseInt(s)\<close> with no radix: white space is skipped, then a sign, then the prefix
  \<^verbatim>\<open>0x\<close> (which makes the radix 16), then the longest run of digits is read. No digit
  at all gives \<^verbatim>\<open>NaN\<close>, here \<open>None\<close>.
\<close>

definition is_space :: "char \<Rightarrow> bool" where
  "is_space c = (c \<in> set [CHR '' '', CHR 0x09, CHR 0x0A, CHR 0x0B, CHR 0x0C, CHR 0x0D])"

definition digit :: "int \<Rightarrow> char \<Rightarrow> int option" where
  "digit radix c =
     (let n = (of_char c :: int);
          v = (if 48 \<le> n \<and> n \<le> 57 then Some (n - 48)
               else if 97 \<le> n \<and> n \<le> 122 then Some (n - 87)
               else if 65 \<le> n \<and> n \<le> 90 then Some (n - 55)
               else None)
      in case v of None \<Rightarrow> None | Some k \<Rightarrow> if k < radix then Some k else None)"

definition digits_value :: "int \<Rightarrow> string \<Rightarrow> int" where
  "digits_value radix ds =
     foldl (\<lambda>acc c. acc * radix + (case digit radix c of None \<Rightarrow> 0 | Some k \<Rightarrow> k)) 0 ds"

definition parseInt :: "string \<Rightarrow> int option" where
  "parseInt str =
     (let s1 = dropWhile is_space str;
          negative = (case s1 of [] \<Rightarrow> False | c # _ \<Rightarrow> c = CHR ''-'');
          s2 = (case s1 of [] \<Rightarrow> [] | c # cs \<Rightarrow> if c = CHR ''-'' \<or> c = CHR ''+'' then cs else s1);
          hex = (case s2 of a # b # _ \<Rightarrow> a = CHR ''0'' \<and> (b = CHR ''x'' \<or> b = CHR ''X'') | _ \<Rightarrow> False);
          radix = (if hex then 16 else 10);
          s3 = (if hex then drop 2 s2 else s2);
          ds = takeWhile (\<lambda>c. digit radix c \<noteq> None) s3
      in if ds = [] then None
         else Some ((if negative then - 1 else 1) * to_double (digits_value radix ds)))"

text \<open>\<^verbatim>\<open>parseInt(param) || dflt\<close>: \<^verbatim>\<open>NaN\<close> and 0 are falsy.\<close>

definition parse_or :: "string \<Rightarrow> int \<Rightarrow> int" where
  "parse_or param dflt = (case parseInt param of None \<Rightarrow> dflt | Some n \<Rightarrow> if n = 0 then dflt else n)"

subsection \<open>The query\<close>

record list_query =
  search_query :: "string option"
  filter_status :: "string option"
  filter_category :: "string option"
  filter_priority :: "string option"
  filter_tags :: "string option"
  sort_by :: "string option"
  sort_order :: "string option"
  limitParam :: "string option"
  offsetParam :: "string option"

text \<open>A destructuring default: \<^verbatim>\<open>limit: limitParam = '10'\<close> applies when the key is missing.\<close>

definition with_default :: "string option \<Rightarrow> string \<Rightarrow> string" where
  "with_default v dflt = (case v of None \<Rightarrow> dflt | Some s \<Rightarrow> s)"

text \<open>\<^verbatim>\<open>Math.min(Math.max(parseInt(limitParam) || 10, 1), 1000)\<close>\<close>

definition effective_limit :: "list_query \<Rightarrow> int" where
  "effective_limit q = min (max (parse_or (with_default (limitParam q) ''10'') 10) 1) 1000"

text \<open>\<^verbatim>\<open>Math.max(parseInt(offsetParam) || 0, 0)\<close>\<close>

definition effective_offset :: "list_query \<Rightarrow> int" where
  "effective_offset q = max (parse_or (with_default (offsetParam q) ''0'') 0) 0"

text \<open>A condition is pushed only \<^verbatim>\<open>if (filter)\<close>: a missing or empty filter adds none.\<close>

definition when_given :: "string option \<Rightarrow> (string \<Rightarrow> bool) \<Rightarrow> bool" where
  "when_given v cond = (case v of None \<Rightarrow> True | Some s \<Rightarrow> s = [] \<or> cond s)"

definition search_cond :: "string \<Rightarrow> task \<Rightarrow> bool" where
  "search_cond s t =
     (let searchPattern = ''%'' @ s @ ''%''
      in sql_ilike (Some (title t)) searchPattern \<or> sql_ilike (description t) searchPattern
         \<or> sql_ilike (tags t) searchPattern)"

text \<open>\<^verbatim>\<open>whereConditions.join(' AND ')\<close>, with \<^verbatim>\<open>user_id = $1\<close> always the first.\<close>

definition where_clause :: "string \<Rightarrow> list_query \<Rightarrow> task \<Rightarrow> bool" where
  "where_clause u q t =
     (user_id t = u \<and>
      when_given (filter_status q) (\<lambda>s. status t = s) \<and>
      when_given (filter_category q) (\<lambda>s. category t = Some s) \<and>
      when_given (filter_priority q) (\<lambda>s. priority t = Some s) \<and>
      when_given (filter_tags q) (\<lambda>s. sql_like (tags t) (''%'' @ s @ ''%'')) \<and>
      when_given (search_query q) (\<lambda>s. search_cond s t))"

definition validSortFields :: "string list" where
  "validSortFields =
     [''title'', ''due_date'', ''priority'', ''status'', ''order_index'', ''created_at'', ''updated_at'']"

definition sortField :: "list_query \<Rightarrow> string" where
  "sortField q =
     (let s = with_default (sort_by q) ''order_index''
      in if s \<in> set validSortFields then s else ''order_index'')"

definition sortDirection :: "list_query \<Rightarrow> string" where
  "sortDirection q =
     (let s = with_default (sort_order q) ''asc''
      in if s \<in> set [''asc'', ''desc''] then s else ''asc'')"

text \<open>
  \<^verbatim>\<open>ORDER BY column\<close>, ascending, \<^verbatim>\<open>NULL\<close>s last. Text is compared character by
  character. SQL does not say in which order rows with equal keys come; here they stay
  in table order, in either direction.
\<close>

definition nulls_last :: "'a option \<Rightarrow> 'a \<Rightarrow> nat \<times> 'a" where
  "nulls_last v filler = (case v of None \<Rightarrow> (1, filler) | Some x \<Rightarrow> (0, x))"

definition order_by_asc :: "string \<Rightarrow> task list \<Rightarrow> task list" where
  "order_by_asc field rows =
     (if field = ''title'' then sort_key title rows
      else if field = ''due_date'' then sort_key (\<lambda>t. nulls_last (due_date t) []) rows
      else if field = ''priority'' then sort_key (\<lambda>t. nulls_last (priority t) []) rows
      else if field = ''status'' then sort_key status rows
      else if field = ''created_at'' then sort_key created_at rows
      else if field = ''updated_at'' then sort_key updated_at rows
      else sort_key order_index rows)"

text \<open>Descending: \<^verbatim>\<open>NULL\<close>s first, the keys falling.\<close>

definition order_by :: "string \<Rightarrow> string \<Rightarrow> task list \<Rightarrow> task list" where
  "order_by field direction rows =
     (if direction = ''desc'' then rev (order_by_asc field (rev rows))
      else order_by_asc field rows)"

text \<open>
  \<^verbatim>\<open>GET /api/tasks\<close>, through \<^verbatim>\<open>db\<close>: the count, then the page. Limit and offset are
  bound as 64-bit integers; an offset of 9223372036854775808 or more is none, and the second
  query throws.
\<close>

definition list_tasks :: "db \<Rightarrow> string \<Rightarrow> list_query \<Rightarrow> int \<Rightarrow> response" where
  "list_tasks d u q now =
     (let limit = effective_limit q;
          offset = effective_offset q;
          rows = filter (where_clause u q) d;
          total = length rows
      in if 9223372036854775808 \<le> offset then internal_error now
         else (200, TaskPageBody
                 (take (nat limit) (drop (nat offset) (order_by (sortField q) (sortDirection q) rows)))
                 total))"

section \<open>Routing\<close>

text \<open>
  The task routes in the order in which \<^verbatim>\<open>server.ts\<close> registers them. A request goes
  to the first route of its method whose path matches; a path is given by its segments,
  a literal segment matches without regard to case, and \<^verbatim>\<open>:task_id\<close> matches any
  segment. The routes registered before these (\<^verbatim>\<open>/api/auth\<close>, \<^verbatim>\<open>/api/users\<close>) match none
  of the paths below.
\<close>

datatype http_method = GET | POST | PATCH | DELETE

datatype segment = Lit string | Param

datatype endpoint =
    ListTasks | CreateTask | GetTask | UpdateTask | DeleteTask | DuplicateTask
  | ToggleStatus | ShareTask | BulkComplete | BulkDelete | ReorderTasks | PublicTask

definition task_routes :: "(http_method \<times> segment list \<times> endpoint) list" where
  "task_routes =
     [(GET, [Lit ''api'', Lit ''tasks''], ListTasks),
      (POST, [Lit ''api'', Lit ''tasks''], CreateTask),
      (GET, [Lit ''api'', Lit ''tasks'', Param], GetTask),
      (PATCH, [Lit ''api'', Lit ''tasks'', Param], UpdateTask),
      (DELETE, [Lit ''api'', Lit ''tasks'', Param], DeleteTask),
      (POST, [Lit ''api'', Lit ''tasks'', Param, Lit ''duplicate''], DuplicateTask),
      (PATCH, [Lit ''api'', Lit ''tasks'', Param, Lit ''toggle-status''], ToggleStatus),
      (POST, [Lit ''api'', Lit ''tasks'', Param, Lit ''share''], ShareTask),
      (POST, [Lit ''api'', Lit ''tasks'', Lit ''bulk-complete''], BulkComplete),
      (DELETE, [Lit ''api'', Lit ''tasks'', Lit ''bulk-delete''], BulkDelete),
      (PATCH, [Lit ''api'', Lit ''tasks'', Lit ''reorder''], ReorderTasks),
      (GET, [Lit ''api'', Lit ''public'', Lit ''tasks'', Param], PublicTask)]"

definition seg_matches :: "segment \<Rightarrow> string \<Rightarrow> bool" where
  "seg_matches p s =
     (case p of Lit l \<Rightarrow> map lower_char s = map lower_char l | Param \<Rightarrow> s \<noteq> [])"

definition path_matches :: "segment list \<Rightarrow> string list \<Rightarrow> bool" where
  "path_matches ps segs = list_all2 seg_matches ps segs"

text \<open>\<^verbatim>\<open>req.params.task_id\<close>: the segment at the place of the parameter.\<close>

definition param_of :: "segment list \<Rightarrow> string list \<Rightarrow> string" where
  "param_of ps segs =
     (case filter (\<lambda>(p, s). p = Param) (zip ps segs) of [] \<Rightarrow> [] | (p, s) # _ \<Rightarrow> s)"

definition route :: "http_method \<Rightarrow> string list \<Rightarrow> (endpoint \<times> string) option" where
  "route m segs =
     (case find (\<lambda>(m', ps, e). m' = m \<and> path_matches ps segs) task_routes of
        None \<Rightarrow> None
      | Some (m', ps, e) \<Rightarrow> Some (e, param_of ps segs))"

record request =
  r_method :: http_method
  r_path :: "string list"
  r_body :: json_body
  r_query :: list_query
  r_origin :: string

text \<open>
  What the server does with a request to a task route: the response and the table
  afterwards; \<open>None\<close> for a request to no task route. \<open>u\<close> is the caller that
  \<^verbatim>\<open>authenticateToken\<close> found (the public route does not ask for one), \<open>new_id\<close> what
  \<^verbatim>\<open>uuidv4()\<close> returns.
\<close>

definition handle ::
  "(string \<Rightarrow> int option) \<Rightarrow> db \<Rightarrow> string \<Rightarrow> request \<Rightarrow> string \<Rightarrow> int \<Rightarrow> (response \<times> db) option" where
  "handle Date_parse d u req new_id now =
     (case route (r_method req) (r_path req) of
        None \<Rightarrow> None
      | Some (e, tid) \<Rightarrow>
          Some (case e of
                  ListTasks \<Rightarrow> (list_tasks d u (r_query req) now, d)
                | CreateTask \<Rightarrow> create_task Date_parse d u (r_body req) new_id now
                | GetTask \<Rightarrow> (get_task d u tid now, d)
                | UpdateTask \<Rightarrow> update_task d u tid (r_body req) now
                | DeleteTask \<Rightarrow> delete_task d u tid now
                | DuplicateTask \<Rightarrow> duplicate_task d u tid new_id now
                | ToggleStatus \<Rightarrow> toggle_status d u tid (r_body req) now
                | ShareTask \<Rightarrow> share_task Date_parse d u tid (r_origin req) now
                | BulkComplete \<Rightarrow> bulk_complete d u (r_body req) now
                | BulkDelete \<Rightarrow> bulk_delete d u (r_body req) now
                | ReorderTasks \<Rightarrow> reorder_tasks d u (r_body req) now
                | PublicTask \<Rightarrow> (get_public_task d tid now, d)))"

section \<open>The seeded table\<close>

text \<open>
  The three rows \<^verbatim>\<open>initializeDatabase\<close> inserts, text for text. They are the table on
  which the examples below run.
\<close>

definition task_001 :: task where
  "task_001 =
     \<lparr>task_id = ''task_001'', user_id = ''user_001'', title = ''Complete project report'',
      description = Some ''Write and finalize the quarterly project report with charts'',
      due_date = Some ''2023-10-15T17:00:00Z'', priority = Some ''high'',
      category = Some ''Work'', tags = Some ''report,urgent,q4'', status = ''incomplete'',
      order_index = 1, share_expires_at = None,
      created_at = ''2023-10-01T10:30:00Z'', updated_at = ''2023-10-01T10:30:00Z''\<rparr>"

definition task_002 :: task where
  "task_002 =
     \<lparr>task_id = ''task_002'', user_id = ''user_001'', title = ''Grocery shopping'',
      description = Some ''Buy milk, bread, and eggs from the store'',
      due_date = Some ''2023-10-07T18:00:00Z'', priority = Some ''low'',
      category = Some ''Personal'', tags = Some ''shopping,essentials'', status = ''incomplete'',
      order_index = 2, share_expires_at = Some ''2023-10-08T18:00:00Z'',
      created_at = ''2023-10-01T11:00:00Z'', updated_at = ''2023-10-01T11:00:00Z''\<rparr>"

definition task_003 :: task where
  "task_003 =
     \<lparr>task_id = ''task_003'', user_id = ''user_003'', title = ''Test task'',
      description = Some ''A test task for the test user'',
      due_date = Some ''2024-01-01T12:00:00Z'', priority = Some ''medium'',
      category = Some ''Work'', tags = Some ''test'', status = ''incomplete'',
      order_index = 1, share_expires_at = None,
      created_at = ''2023-10-03T15:00:00Z'', updated_at = ''2023-10-03T15:00:00Z''\<rparr>"

definition seed_db :: db where
  "seed_db = [task_001, task_002, task_003]"

text \<open>A body and a query with no field, and requests made of them, for the examples.\<close>

definition empty_body :: json_body where
  "empty_body =
     \<lparr>b_task_id = None, b_title = None, b_description = None, b_due_date = None,
      b_priority = None, b_category = None, b_tags = None, b_status = None,
      b_order_index = None, b_share_expires_at = None, b_task_ids = None, b_order = None\<rparr>"

definition empty_query :: list_query where
  "empty_query =
     \<lparr>search_query = None, filter_status = None, filter_category = None,
      filter_priority = None, filter_tags = None, sort_by = None, sort_order = None,
      limitParam = None, offsetParam = None\<rparr>"

definition request_to :: "http_method \<Rightarrow> string list \<Rightarrow> json_body \<Rightarrow> request" where
  "request_to m segs b =
     \<lparr>r_method = m, r_path = segs, r_body = b, r_query = empty_query,
      r_origin = ''http://localhost:3000''\<rparr>"

section \<open>Auxiliary notions for the proofs\<close>

text \<open>The row with a given id, if the table has one: \<^verbatim>\<open>SELECT * FROM tasks WHERE task_id = $1\<close>.\<close>

definition lookup :: "db \<Rightarrow> string \<Rightarrow> task option" where
  "lookup d tid = find (\<lambda>t. task_id t = tid) d"

text \<open>A text with none of the characters that \<^verbatim>\<open>LIKE\<close> gives a meaning to.\<close>

definition plain_text :: "string \<Rightarrow> bool" where
  "plain_text p = (\<forall>c \<in> set p. c \<noteq> CHR ''%'' \<and> c \<noteq> CHR ''_'' \<and> c \<noteq> CHR 0x5C)"

text \<open>The rows of one owner, and the invariant that their order indices differ.\<close>

definition tasks_of :: "db \<Rightarrow> string \<Rightarrow> task list" where
  "tasks_of d u = filter (\<lambda>t. user_id t = u) d"

definition unique_order :: "db \<Rightarrow> string \<Rightarrow> bool" where
  "unique_order d u = distinct (map order_index (tasks_of d u))"

text \<open>
  A request to create a task at an order index, other than 0, that a task of the caller
  has already.
\<close>

definition order_taken :: "db \<Rightarrow> string \<Rightarrow> request \<Rightarrow> bool" where
  "order_taken d u req =
     (map_option fst (route (r_method req) (r_path req)) = Some CreateTask \<and>
      (case b_order_index (r_body req) of
         Some (Some i) \<Rightarrow> i \<noteq> 0 \<and> i \<in> set (map order_index (tasks_of d u))
       | _ \<Rightarrow> False))"

section \<open>The routes that ask for a pool connection\<close>

text \<open>
  None of them gets past \<^verbatim>\<open>await pool.connect()\<close>: whatever the table, the caller and
  the request, the handler ends in its \<^verbatim>\<open>catch\<close> block and the table is as it was.
\<close>

lemma get_task_throws: "get_task d u tid now = internal_error now"
  by (simp add: get_task_def pool_connect_def)

lemma update_task_throws: "update_task d u tid b now = (internal_error now, d)"
  by (simp add: update_task_def pool_connect_def)

lemma delete_task_throws: "delete_task d u tid now = (internal_error now, d)"
  by (simp add: delete_task_def pool_connect_def)

lemma duplicate_task_throws: "duplicate_task d u tid new_id now = (internal_error now, d)"
  by (simp add: duplicate_task_def pool_connect_def)

lemma share_task_throws: "share_task Date_parse d u tid origin now = (internal_error now, d)"
  by (simp add: share_task_def pool_connect_def)

lemma get_public_task_throws: "get_public_task d tid now = internal_error now"
  by (simp add: get_public_task_def pool_connect_def)

text \<open>The guards that come before the connection answer 400, and only they do.\<close>

lemma toggle_status_answer:
  "toggle_status d u tid b now =
     (if or_null (b_status b) \<in> {Some ''incomplete'', Some ''completed''}
      then internal_error now else invalid_status now, d)"
  by (auto simp add: toggle_status_def pool_connect_def split: option.split)

lemma bulk_complete_answer:
  "bulk_complete d u b now =
     (if b_task_ids b \<in> {None, Some []} then invalid_task_ids now else internal_error now, d)"
  by (auto simp add: bulk_complete_def pool_connect_def split: option.split)

lemma bulk_delete_answer:
  "bulk_delete d u b now =
     (if b_task_ids b \<in> {None, Some []} then invalid_task_ids now else internal_error now, d)"
  by (auto simp add: bulk_delete_def pool_connect_def split: option.split)

lemma reorder_tasks_answer:
  "reorder_tasks d u b now =
     (if b_order b \<in> {None, Some []}
      then error_json 400 ''Valid order array required'' ''INVALID_ORDER'' now
      else internal_error now, d)"
  by (auto simp add: reorder_tasks_def pool_connect_def split: option.split)

lemma internal_error_500: "fst (internal_error now) = 500"
  by (simp add: internal_error_def error_json_def)

subsection \<open>Where the router sends a request\<close>

lemmas route_defs = route_def task_routes_def path_matches_def seg_matches_def param_of_def
  lower_char_def

lemma route_task:
  assumes "tid \<noteq> []"
  shows "route GET [''api'', ''tasks'', tid] = Some (GetTask, tid)"
    and "route PATCH [''api'', ''tasks'', tid] = Some (UpdateTask, tid)"
    and "route DELETE [''api'', ''tasks'', tid] = Some (DeleteTask, tid)"
  using assms by (simp_all add: route_defs)

text \<open>
  \<^verbatim>\<open>/api/tasks/:task_id\<close> is registered before \<^verbatim>\<open>/api/tasks/reorder\<close> and
  \<^verbatim>\<open>/api/tasks/bulk-delete\<close>, so the requests meant for these two go to the partial
  update and to the delete of a task, with the last segment as the task id.
\<close>

lemma route_reorder: "route PATCH [''api'', ''tasks'', ''reorder''] = Some (UpdateTask, ''reorder'')"
  by (simp add: route_task)

lemma route_bulk_delete:
  "route DELETE [''api'', ''tasks'', ''bulk-delete''] = Some (DeleteTask, ''bulk-delete'')"
  by (simp add: route_task)

lemma route_bulk_complete:
  "route POST [''api'', ''tasks'', ''bulk-complete''] = Some (BulkComplete, [])"
  by (simp add: route_defs)

lemma route_action:
  assumes "tid \<noteq> []"
  shows "route POST [''api'', ''tasks'', tid, ''duplicate''] = Some (DuplicateTask, tid)"
    and "route PATCH [''api'', ''tasks'', tid, ''toggle-status''] = Some (ToggleStatus, tid)"
    and "route POST [''api'', ''tasks'', tid, ''share''] = Some (ShareTask, tid)"
    and "route GET [''api'', ''public'', ''tasks'', tid] = Some (PublicTask, tid)"
  using assms by (simp_all add: route_defs)

lemma route_collection:
  "route GET [''api'', ''tasks''] = Some (ListTasks, [])"
  "route POST [''api'', ''tasks''] = Some (CreateTask, [])"
  by (simp_all add: route_defs)

text \<open>Only the creation of a task changes the table.\<close>

lemma handle_db:
  assumes "handle Date_parse d u req new_id now = Some (resp, d')"
  shows "d' = d \<or>
         (map_option fst (route (r_method req) (r_path req)) = Some CreateTask \<and>
          (resp, d') = create_task Date_parse d u (r_body req) new_id now)"
proof -
  from assms obtain e tid where r: "route (r_method req) (r_path req) = Some (e, tid)"
    by (auto simp add: handle_def split: option.splits)
  show ?thesis
  proof (cases e)
    case CreateTask
    with assms r show ?thesis by (simp add: handle_def)
  qed (use assms r in \<open>auto simp add: handle_def update_task_throws delete_task_throws
        duplicate_task_throws share_task_throws toggle_status_answer bulk_complete_answer
        bulk_delete_answer reorder_tasks_answer\<close>)
qed

section \<open>Seeded rows\<close>

lemmas seed_defs = seed_db_def task_001_def task_002_def task_003_def

lemma wf_seed_db: "wf_db seed_db"
  by (simp add: wf_db_def seed_defs)

lemma tasks_of_seed: "tasks_of seed_db ''user_001'' = [task_001, task_002]"
  by (simp add: tasks_of_def seed_defs)

lemma seed_fields:
  "task_id task_001 = ''task_001''" "task_id task_002 = ''task_002''"
  "order_index task_001 = 1" "order_index task_002 = 2"
  "status task_001 = ''incomplete''" "status task_002 = ''incomplete''"
  "share_expires_at task_001 = None" "share_expires_at task_002 = Some ''2023-10-08T18:00:00Z''"
  by (simp_all add: seed_defs)

section \<open>The clock and the text of an expiry\<close>

lemma pad_numeral:
  "pad 2 n = [digit_char (nat n div 10), digit_char (nat n)]"
  "pad 3 n = [digit_char (nat n div 100), digit_char (nat n div 10), digit_char (nat n)]"
  "pad 4 n = [digit_char (nat n div 1000), digit_char (nat n div 100), digit_char (nat n div 10),
              digit_char (nat n)]"
  by (simp_all add: pad_def upt_rec)

lemma toISOString_before_expiry: "toISOString 1696000000000 = ''2023-09-29T15:06:40.000Z''"
  apply (simp only: toISOString_def Let_def)
  apply (simp add: year_text_def pad_numeral digit_char_def)
  done

lemma toISOString_at_expiry: "toISOString 1696788000000 = ''2023-10-08T18:00:00.000Z''"
  apply (simp only: toISOString_def Let_def)
  apply (simp add: year_text_def pad_numeral digit_char_def)
  done

text \<open>
  The seeded expiry of task_002 is written without milliseconds. As a text it is above
  the text of its own instant, and so the condition of the public route still holds of
  the row when its share has just run out.
\<close>

lemma shared_at_expiry: "shared_now ''task_002'' 1696788000000 task_002"
  by (simp add: shared_now_def toISOString_at_expiry task_002_def)

section \<open>Reordering\<close>

text \<open>
  Claim C1 says that a reorder request whose list is a permutation of the caller's task
  ids puts each task at its place in the list. The server does not: on the seeded table
  the request \<^verbatim>\<open>PATCH /api/tasks/reorder\<close> of user_001 with the list
  \<open>[task_002, task_001]\<close>, a permutation of that user's task ids, goes to the handler of
  the partial update, with \<open>reorder\<close> for the task id, and is answered 500; the handler
  written for the request answers 500 to it as well. The table is as before, task_001
  at index 1 and task_002 at 2.
\<close>

theorem reorder_request_fails:
  "set [''task_002'', ''task_001''] = task_id ` set (tasks_of seed_db ''user_001'') \<and>
   route PATCH [''api'', ''tasks'', ''reorder''] = Some (UpdateTask, ''reorder'') \<and>
   handle Date_parse seed_db ''user_001''
     (request_to PATCH [''api'', ''tasks'', ''reorder'']
        (empty_body\<lparr>b_order := Some [''task_002'', ''task_001'']\<rparr>)) new_id now
     = Some (internal_error now, seed_db) \<and>
   reorder_tasks seed_db ''user_001'' (empty_body\<lparr>b_order := Some [''task_002'', ''task_001'']\<rparr>) now
     = (internal_error now, seed_db) \<and>
   fst (internal_error now) = 500 \<and>
   map (\<lambda>t. (task_id t, order_index t)) (tasks_of seed_db ''user_001'')
     = [(''task_001'', 1), (''task_002'', 2)]"
proof -
  have "set [''task_002'', ''task_001''] = task_id ` set (tasks_of seed_db ''user_001'')"
    by (auto simp add: tasks_of_seed seed_fields)
  moreover have "handle Date_parse seed_db ''user_001''
     (request_to PATCH [''api'', ''tasks'', ''reorder'']
        (empty_body\<lparr>b_order := Some [''task_002'', ''task_001'']\<rparr>)) new_id now
     = Some (internal_error now, seed_db)"
    by (simp add: handle_def request_to_def route_reorder update_task_throws)
  moreover have "reorder_tasks seed_db ''user_001''
      (empty_body\<lparr>b_order := Some [''task_002'', ''task_001'']\<rparr>) now = (internal_error now, seed_db)"
    by (simp add: reorder_tasks_answer)
  ultimately show ?thesis
    by (simp add: route_reorder internal_error_500 tasks_of_seed seed_fields)
qed

section \<open>Bulk complete and bulk delete\<close>

text \<open>
  Claim C3 says that a batch of ids the caller owns is completed, or deleted, and counted.
  The server does neither: on the seeded table the batch \<open>[task_001, task_002]\<close> of
  user_001, both owned, is answered 500 by \<^verbatim>\<open>POST /api/tasks/bulk-complete\<close>, and the
  two tasks stay incomplete; \<^verbatim>\<open>DELETE /api/tasks/bulk-delete\<close> goes to the delete of a
  task, with \<open>bulk-delete\<close> for the task id, which answers 500, as the handler written
  for it does, and the tasks stay in the table. The empty batch, of which every id is
  owned, is answered 400.
\<close>

theorem bulk_requests_fail:
  "count_owned seed_db ''user_001'' [''task_001'', ''task_002''] = length [''task_001'', ''task_002''] \<and>
   handle Date_parse seed_db ''user_001''
     (request_to POST [''api'', ''tasks'', ''bulk-complete'']
        (empty_body\<lparr>b_task_ids := Some [''task_001'', ''task_002'']\<rparr>)) new_id now
     = Some (internal_error now, seed_db) \<and>
   route DELETE [''api'', ''tasks'', ''bulk-delete''] = Some (DeleteTask, ''bulk-delete'') \<and>
   handle Date_parse seed_db ''user_001''
     (request_to DELETE [''api'', ''tasks'', ''bulk-delete'']
        (empty_body\<lparr>b_task_ids := Some [''task_001'', ''task_002'']\<rparr>)) new_id now
     = Some (internal_error now, seed_db) \<and>
   bulk_delete seed_db ''user_001'' (empty_body\<lparr>b_task_ids := Some [''task_001'', ''task_002'']\<rparr>) now
     = (internal_error now, seed_db) \<and>
   fst (internal_error now) = 500 \<and>
   map (\<lambda>t. (task_id t, status t)) (tasks_of seed_db ''user_001'')
     = [(''task_001'', ''incomplete''), (''task_002'', ''incomplete'')] \<and>
   handle Date_parse seed_db ''user_001''
     (request_to POST [''api'', ''tasks'', ''bulk-complete''] (empty_body\<lparr>b_task_ids := Some []\<rparr>))
     new_id now
     = Some (invalid_task_ids now, seed_db) \<and>
   fst (invalid_task_ids now) = 400"
proof -
  have "count_owned seed_db ''user_001'' [''task_001'', ''task_002''] = 2"
    by (simp add: count_owned_def in_batch_def seed_defs)
  moreover have "handle Date_parse seed_db ''user_001''
     (request_to POST [''api'', ''tasks'', ''bulk-complete'']
        (empty_body\<lparr>b_task_ids := Some [''task_001'', ''task_002'']\<rparr>)) new_id now
     = Some (internal_error now, seed_db)"
    by (simp add: handle_def request_to_def route_bulk_complete bulk_complete_answer)
  moreover have "handle Date_parse seed_db ''user_001''
     (request_to DELETE [''api'', ''tasks'', ''bulk-delete'']
        (empty_body\<lparr>b_task_ids := Some [''task_001'', ''task_002'']\<rparr>)) new_id now
     = Some (internal_error now, seed_db)"
    by (simp add: handle_def request_to_def route_bulk_delete delete_task_throws)
  moreover have "bulk_delete seed_db ''user_001''
      (empty_body\<lparr>b_task_ids := Some [''task_001'', ''task_002'']\<rparr>) now = (internal_error now, seed_db)"
    by (simp add: bulk_delete_answer)
  moreover have "handle Date_parse seed_db ''user_001''
     (request_to POST [''api'', ''tasks'', ''bulk-complete''] (empty_body\<lparr>b_task_ids := Some []\<rparr>))
     new_id now = Some (invalid_task_ids now, seed_db)"
    by (simp add: handle_def request_to_def route_bulk_complete bulk_complete_answer)
  moreover have "fst (invalid_task_ids now) = 400"
    by (simp add: invalid_task_ids_def error_json_def)
  ultimately show ?thesis
    by (simp add: route_bulk_delete internal_error_500 tasks_of_seed seed_fields)
qed

section \<open>Sharing a task\<close>

text \<open>
  Claim C4 says that sharing a task with no expiry sets one, thirty days ahead, and
  reports it. The server does not: on the seeded table task_001 of user_001 has no
  expiry, the request \<^verbatim>\<open>POST /api/tasks/task_001/share\<close> is answered 500 and the table is
  as before, the expiry of task_001 still \<^verbatim>\<open>NULL\<close>.
\<close>

theorem share_request_fails:
  "task_001 \<in> set seed_db \<and> user_id task_001 = ''user_001'' \<and>
   share_expires_at task_001 = None \<and>
   handle Date_parse seed_db ''user_001''
     (request_to POST [''api'', ''tasks'', ''task_001'', ''share''] empty_body) new_id now
     = Some (internal_error now, seed_db) \<and>
   fst (internal_error now) = 500"
proof -
  have "handle Date_parse seed_db ''user_001''
     (request_to POST [''api'', ''tasks'', ''task_001'', ''share''] empty_body) new_id now
     = Some (internal_error now, seed_db)"
    by (simp add: handle_def request_to_def route_action share_task_throws)
  then show ?thesis
    by (simp add: internal_error_500 seed_defs)
qed

section \<open>The public route\<close>

text \<open>
  Claim C5 says that the public fetch returns the reduced task when the expiry of the
  task is in the future, and the one not-found response otherwise. The server does
  neither: on the seeded table task_002 is shared until 2023-10-08T18:00:00Z; on
  2023-09-29, nine days before, \<^verbatim>\<open>GET /api/public/tasks/task_002\<close> is answered 500, and
  so is the fetch of an id no task has, which is no 404.
\<close>

theorem public_fetch_fails:
  "task_002 \<in> set seed_db \<and>
   share_expires_at task_002 = Some ''2023-10-08T18:00:00Z'' \<and>
   toISOString 1696000000000 = ''2023-09-29T15:06:40.000Z'' \<and>
   shared_now ''task_002'' 1696000000000 task_002 \<and>
   handle Date_parse seed_db u
     (request_to GET [''api'', ''public'', ''tasks'', ''task_002''] empty_body) new_id 1696000000000
     = Some (internal_error 1696000000000, seed_db) \<and>
   handle Date_parse seed_db u
     (request_to GET [''api'', ''public'', ''tasks'', ''task_999''] empty_body) new_id 1696000000000
     = Some (internal_error 1696000000000, seed_db) \<and>
   fst (internal_error 1696000000000) = 500"
proof -
  have "shared_now ''task_002'' 1696000000000 task_002"
    by (simp add: shared_now_def toISOString_before_expiry task_002_def)
  moreover have "handle Date_parse seed_db u
     (request_to GET [''api'', ''public'', ''tasks'', tid] empty_body) new_id 1696000000000
     = Some (internal_error 1696000000000, seed_db)" if "tid \<noteq> []" for tid
    using that by (simp add: handle_def request_to_def route_action get_public_task_throws)
  ultimately show ?thesis
    by (simp add: internal_error_500 toISOString_before_expiry seed_defs)
qed

section \<open>Duplicating a task\<close>

text \<open>
  Claim C6 says that duplicating an owned task adds a copy of it at the end of the
  owner's order. The server adds nothing: on the seeded table
  \<^verbatim>\<open>POST /api/tasks/task_001/duplicate\<close> of user_001, who owns task_001, is answered 500
  and the table is as before, with its three rows.
\<close>

theorem duplicate_request_fails:
  "task_001 \<in> set seed_db \<and> user_id task_001 = ''user_001'' \<and>
   handle Date_parse seed_db ''user_001''
     (request_to POST [''api'', ''tasks'', ''task_001'', ''duplicate''] empty_body) new_id now
     = Some (internal_error now, seed_db) \<and>
   fst (internal_error now) = 500 \<and>
   map task_id seed_db = [''task_001'', ''task_002'', ''task_003'']"
proof -
  have "handle Date_parse seed_db ''user_001''
     (request_to POST [''api'', ''tasks'', ''task_001'', ''duplicate''] empty_body) new_id now
     = Some (internal_error now, seed_db)"
    by (simp add: handle_def request_to_def route_action duplicate_task_throws)
  then show ?thesis
    by (simp add: internal_error_500 seed_defs)
qed

section \<open>Toggling the status\<close>

text \<open>
  Claim C7 says that a toggle to \<open>incomplete\<close> or \<open>completed\<close> of an owned task stores
  that status, and that any other target is refused with 400. The second half holds,
  the first does not: on the seeded table
  \<^verbatim>\<open>PATCH /api/tasks/task_001/toggle-status\<close> of user_001 with the status \<open>completed\<close>
  is answered 500 and task_001 stays incomplete; with the status \<open>archived\<close> the answer
  is 400.
\<close>

theorem toggle_request_fails:
  "task_001 \<in> set seed_db \<and> user_id task_001 = ''user_001'' \<and>
   status task_001 = ''incomplete'' \<and>
   handle Date_parse seed_db ''user_001''
     (request_to PATCH [''api'', ''tasks'', ''task_001'', ''toggle-status'']
        (empty_body\<lparr>b_status := Some (Some ''completed'')\<rparr>)) new_id now
     = Some (internal_error now, seed_db) \<and>
   fst (internal_error now) = 500 \<and>
   handle Date_parse seed_db ''user_001''
     (request_to PATCH [''api'', ''tasks'', ''task_001'', ''toggle-status'']
        (empty_body\<lparr>b_status := Some (Some ''archived'')\<rparr>)) new_id now
     = Some (invalid_status now, seed_db) \<and>
   fst (invalid_status now) = 400"
proof -
  have "handle Date_parse seed_db ''user_001''
     (request_to PATCH [''api'', ''tasks'', ''task_001'', ''toggle-status'']
        (empty_body\<lparr>b_status := Some (Some ''completed'')\<rparr>)) new_id now
     = Some (internal_error now, seed_db)"
    by (simp add: handle_def request_to_def route_action toggle_status_answer or_null_def)
  moreover have "handle Date_parse seed_db ''user_001''
     (request_to PATCH [''api'', ''tasks'', ''task_001'', ''toggle-status'']
        (empty_body\<lparr>b_status := Some (Some ''archived'')\<rparr>)) new_id now
     = Some (invalid_status now, seed_db)"
    by (simp add: handle_def request_to_def route_action toggle_status_answer or_null_def)
  moreover have "fst (invalid_status now) = 400"
    by (simp add: invalid_status_def error_json_def)
  ultimately show ?thesis
    by (simp add: internal_error_500 seed_defs)
qed

section \<open>Partial update\<close>

text \<open>
  Claim C10 says that a partial update stores what it is sent without validating it, so
  that a stored status can leave the enum. The server validates nothing and stores
  nothing: on the seeded table \<^verbatim>\<open>PATCH /api/tasks/task_001\<close> of user_001 with the status
  \<open>bogus\<close> is answered 500 and task_001 stays incomplete. The schema for updates
  refuses that body, and a create with that status is answered 400.
\<close>

theorem update_request_fails:
  "task_001 \<in> set seed_db \<and> user_id task_001 = ''user_001'' \<and>
   status task_001 = ''incomplete'' \<and> ''bogus'' \<notin> set status_enum \<and>
   handle Date_parse seed_db ''user_001''
     (request_to PATCH [''api'', ''tasks'', ''task_001'']
        (empty_body\<lparr>b_status := Some (Some ''bogus'')\<rparr>)) new_id now
     = Some (internal_error now, seed_db) \<and>
   fst (internal_error now) = 500 \<and>
   \<not> updateTaskInputSchema Date_parse
       (empty_body\<lparr>b_task_id := Some (Some ''task_001''), b_status := Some (Some ''bogus'')\<rparr>) \<and>
   handle Date_parse seed_db ''user_001''
     (request_to POST [''api'', ''tasks'']
        (empty_body\<lparr>b_title := Some (Some ''Report''), b_status := Some (Some ''bogus'')\<rparr>))
     new_id now
     = Some (error_json 400 ''Validation failed'' ''VALIDATION_ERROR'' now, seed_db)"
proof -
  have "handle Date_parse seed_db ''user_001''
     (request_to PATCH [''api'', ''tasks'', ''task_001'']
        (empty_body\<lparr>b_status := Some (Some ''bogus'')\<rparr>)) new_id now
     = Some (internal_error now, seed_db)"
    by (simp add: handle_def request_to_def route_task update_task_throws)
  moreover have "\<not> updateTaskInputSchema Date_parse
       (empty_body\<lparr>b_task_id := Some (Some ''task_001''), b_status := Some (Some ''bogus'')\<rparr>)"
    by (simp add: updateTaskInputSchema_def required_ok_def status_enum_def empty_body_def)
  moreover have "\<not> createTaskInputSchema Date_parse (validationData ''user_001''
        (empty_body\<lparr>b_title := Some (Some ''Report''), b_status := Some (Some ''bogus'')\<rparr>))"
    by (simp add: createTaskInputSchema_def validationData_def or_null_def status_enum_def
        empty_body_def)
  then have "handle Date_parse seed_db ''user_001''
     (request_to POST [''api'', ''tasks'']
        (empty_body\<lparr>b_title := Some (Some ''Report''), b_status := Some (Some ''bogus'')\<rparr>))
     new_id now
     = Some (error_json 400 ''Validation failed'' ''VALIDATION_ERROR'' now, seed_db)"
    by (simp add: handle_def request_to_def route_collection create_task_def)
  ultimately show ?thesis
    by (simp add: internal_error_500 status_enum_def seed_defs)
qed

section \<open>Order indices within one owner\<close>

lemma fold_max_ge: "a \<le> fold max xs (a::int)"
proof (induction xs arbitrary: a)
  case Nil
  show ?case by simp
next
  case (Cons x xs)
  have "a \<le> max x a" by simp
  also have "\<dots> \<le> fold max xs (max x a)" by (rule Cons.IH)
  finally show ?case by simp
qed

lemma fold_max_mem: "x \<in> set xs \<Longrightarrow> x \<le> fold max xs (a::int)"
proof (induction xs arbitrary: a)
  case Nil
  then show ?case by simp
next
  case (Cons y ys)
  show ?case
  proof (cases "x = y")
    case True
    have "x \<le> max y a" using True by simp
    also have "\<dots> \<le> fold max ys (max y a)" by (rule fold_max_ge)
    finally show ?thesis by simp
  next
    case False
    with Cons.prems have "x \<in> set ys" by simp
    then show ?thesis by (simp add: Cons.IH)
  qed
qed

lemma max_order_ge:
  assumes "t \<in> set d" and "user_id t = u"
  obtains m where "max_order d u = Some m" and "order_index t \<le> m"
proof -
  let ?xs = "map order_index (filter (\<lambda>t. user_id t = u) d)"
  from assms have mem: "order_index t \<in> set ?xs" by auto
  then obtain x xs where xs: "?xs = x # xs" by (cases ?xs) auto
  with mem have "order_index t = x \<or> order_index t \<in> set xs" by auto
  then have "order_index t \<le> fold max xs x"
    using fold_max_ge[of x xs] fold_max_mem[of "order_index t" xs x] by auto
  moreover have "max_order d u = Some (fold max xs x)"
    by (simp add: max_order_def xs)
  ultimately show thesis by (rule that[rotated])
qed

text \<open>The next order index is above every index the owner has.\<close>

lemma next_order_above:
  assumes "next_order d u = Some oi" and "t \<in> set d" and "user_id t = u"
  shows "order_index t < oi"
proof -
  from assms(2,3) obtain m where m: "max_order d u = Some m" "order_index t \<le> m"
    by (rule max_order_ge)
  from assms(1) m(1) have "oi = m + 1"
    by (simp add: next_order_def Let_def split: if_splits)
  with m(2) show ?thesis by simp
qed

text \<open>
  It is computed as an \<^verbatim>\<open>INTEGER\<close>: for an owner with a task at 2147483647 the
  statement throws.
\<close>

lemma next_order_out_of_range:
  assumes "t \<in> set d" and "user_id t = u" and "order_index t = 2147483647"
  shows "next_order d u = None"
proof -
  from assms(1,2) obtain m where m: "max_order d u = Some m" "order_index t \<le> m"
    by (rule max_order_ge)
  with assms(3) show ?thesis by (simp add: next_order_def int4_def)
qed

lemma unique_order_append:
  assumes "unique_order d w" and "user_id r = u"
    and "order_index r \<notin> set (map order_index (tasks_of d u))"
  shows "unique_order (d @ [r]) w"
proof (cases "u = w")
  case True
  with assms show ?thesis by (simp add: unique_order_def tasks_of_def)
next
  case False
  with assms(1,2) show ?thesis by (simp add: unique_order_def tasks_of_def)
qed

lemma next_order_fresh:
  assumes "next_order d u = Some oi"
  shows "oi \<notin> set (map order_index (tasks_of d u))"
proof
  assume "oi \<in> set (map order_index (tasks_of d u))"
  then obtain t where t: "t \<in> set d" "user_id t = u" "order_index t = oi"
    by (auto simp: tasks_of_def)
  from next_order_above[OF assms t(1,2)] t(3) show False by simp
qed

text \<open>The index a create stores: the one of the body, or the next one of the caller.\<close>

lemma create_task_db:
  "snd (create_task Date_parse d u b new_id now) = d \<or>
   (\<exists>r. snd (create_task Date_parse d u b new_id now) = d @ [r] \<and> user_id r = u \<and>
        (if v_order_index (validationData u b) = Some 0 then next_order d u
         else v_order_index (validationData u b)) = Some (order_index r))"
proof (cases "createTaskInputSchema Date_parse (validationData u b)")
  case False
  then show ?thesis by (simp add: create_task_def Let_def)
next
  case valid: True
  let ?oi = "if v_order_index (validationData u b) = Some 0 then next_order d u
             else v_order_index (validationData u b)"
  show ?thesis
  proof (cases ?oi)
    case None
    with valid show ?thesis by (simp add: create_task_def Let_def)
  next
    case (Some oi)
    let ?r = "new_row (validationData u b) oi new_id now"
    have r: "user_id ?r = u" "order_index ?r = oi"
      by (simp_all add: new_row_def validationData_def)
    show ?thesis
    proof (cases "sql_insert ?r d")
      case None
      with valid Some show ?thesis by (simp add: create_task_def Let_def)
    next
      case ins: (Some d')
      then have "d' = d @ [?r]" by (simp add: sql_insert_def split: if_splits)
      with valid Some ins have "snd (create_task Date_parse d u b new_id now) = d @ [?r]"
        by (simp add: create_task_def Let_def)
      with r Some show ?thesis by auto
    qed
  qed
qed

lemma unique_order_create:
  assumes "unique_order d w"
    and "\<And>i. b_order_index b = Some (Some i) \<Longrightarrow> i \<noteq> 0 \<Longrightarrow>
           i \<notin> set (map order_index (tasks_of d u))"
  shows "unique_order (snd (create_task Date_parse d u b new_id now)) w"
proof -
  let ?v = "v_order_index (validationData u b)"
  from create_task_db[of Date_parse d u b new_id now] show ?thesis
  proof
    assume "snd (create_task Date_parse d u b new_id now) = d"
    with assms(1) show ?thesis by simp
  next
    assume "\<exists>r. snd (create_task Date_parse d u b new_id now) = d @ [r] \<and> user_id r = u \<and>
        (if ?v = Some 0 then next_order d u else ?v) = Some (order_index r)"
    then obtain r where r: "snd (create_task Date_parse d u b new_id now) = d @ [r]"
      "user_id r = u" "(if ?v = Some 0 then next_order d u else ?v) = Some (order_index r)"
      by blast
    have "order_index r \<notin> set (map order_index (tasks_of d u))"
    proof (cases "?v = Some 0")
      case True
      with r(3) have "next_order d u = Some (order_index r)" by simp
      then show ?thesis by (rule next_order_fresh)
    next
      case False
      with r(3) have v: "?v = Some (order_index r)" "order_index r \<noteq> 0" by auto
      then have "b_order_index b = Some (Some (order_index r))"
        by (auto simp add: validationData_def split: option.splits)
      from this v(2) show ?thesis by (rule assms(2))
    qed
    with assms(1) r(2) have "unique_order (d @ [r]) w" by (rule unique_order_append)
    with r(1) show ?thesis by simp
  qed
qed

text \<open>
  Claim C8, as amended. If the order indices of an owner's tasks are pairwise distinct,
  they still are after every request the server handles, whoever sends it and whatever
  the answer, unless the request is a create that gives an order index, other than 0,
  which a task of the caller has already.
\<close>

theorem unique_order_preserved:
  assumes "unique_order d owner" and "\<not> order_taken d u req"
    and "handle Date_parse d u req new_id now = Some (resp, d')"
  shows "unique_order d' owner"
proof -
  from handle_db[OF assms(3)] show ?thesis
  proof
    assume "d' = d"
    with assms(1) show ?thesis by simp
  next
    assume c: "map_option fst (route (r_method req) (r_path req)) = Some CreateTask \<and>
               (resp, d') = create_task Date_parse d u (r_body req) new_id now"
    with assms(2) have "i \<notin> set (map order_index (tasks_of d u))"
      if "b_order_index (r_body req) = Some (Some i)" "i \<noteq> 0" for i
      using that by (simp add: order_taken_def)
    with assms(1) have "unique_order (snd (create_task Date_parse d u (r_body req) new_id now)) owner"
      by (rule unique_order_create)
    with c show ?thesis by (metis snd_conv)
  qed
qed

text \<open>
  On the seeded table user_001 has the indices 1 and 2. A create of that user with a
  title and nothing else is answered 201 and puts the new task at index 3; one with
  the order index 7, which no task of the user has, puts it at 7.
\<close>

theorem unique_order_preserved_witness:
  "unique_order seed_db ''user_001'' \<and>
   \<not> order_taken seed_db ''user_001''
       (request_to POST [''api'', ''tasks''] (empty_body\<lparr>b_title := Some (Some ''Buy milk'')\<rparr>)) \<and>
   handle Map.empty seed_db ''user_001''
     (request_to POST [''api'', ''tasks''] (empty_body\<lparr>b_title := Some (Some ''Buy milk'')\<rparr>))
     ''task_004'' 1696000000000
     = Some (create_task Map.empty seed_db ''user_001''
               (empty_body\<lparr>b_title := Some (Some ''Buy milk'')\<rparr>) ''task_004'' 1696000000000) \<and>
   fst (fst (create_task Map.empty seed_db ''user_001''
               (empty_body\<lparr>b_title := Some (Some ''Buy milk'')\<rparr>) ''task_004'' 1696000000000)) = 201 \<and>
   map order_index (tasks_of (snd (create_task Map.empty seed_db ''user_001''
               (empty_body\<lparr>b_title := Some (Some ''Buy milk'')\<rparr>) ''task_004'' 1696000000000))
          ''user_001'') = [1, 2, 3] \<and>
   unique_order (snd (create_task Map.empty seed_db ''user_001''
               (empty_body\<lparr>b_title := Some (Some ''Buy milk'')\<rparr>) ''task_004'' 1696000000000))
     ''user_001'' \<and>
   \<not> order_taken seed_db ''user_001''
       (request_to POST [''api'', ''tasks'']
          (empty_body\<lparr>b_title := Some (Some ''Buy milk''), b_order_index := Some (Some 7)\<rparr>)) \<and>
   map order_index (tasks_of (snd (create_task Map.empty seed_db ''user_001''
               (empty_body\<lparr>b_title := Some (Some ''Buy milk''), b_order_index := Some (Some 7)\<rparr>)
               ''task_004'' 1696000000000)) ''user_001'') = [1, 2, 7] \<and>
   unique_order (snd (create_task Map.empty seed_db ''user_001''
               (empty_body\<lparr>b_title := Some (Some ''Buy milk''), b_order_index := Some (Some 7)\<rparr>)
               ''task_004'' 1696000000000)) ''user_001''"
proof -
  let ?b = "empty_body\<lparr>b_title := Some (Some ''Buy milk'')\<rparr>"
  let ?req = "request_to POST [''api'', ''tasks''] ?b"
  let ?c = "create_task Map.empty seed_db ''user_001'' ?b ''task_004'' 1696000000000"
  let ?b7 = "empty_body\<lparr>b_title := Some (Some ''Buy milk''), b_order_index := Some (Some 7)\<rparr>"
  let ?req7 = "request_to POST [''api'', ''tasks''] ?b7"
  let ?c7 = "create_task Map.empty seed_db ''user_001'' ?b7 ''task_004'' 1696000000000"
  have uq: "unique_order seed_db ''user_001''"
    by (simp add: unique_order_def tasks_of_seed seed_fields)
  have ne: "\<not> order_taken seed_db ''user_001'' ?req"
    by (simp add: order_taken_def request_to_def empty_body_def)
  have ne7: "\<not> order_taken seed_db ''user_001'' ?req7"
    by (simp add: order_taken_def request_to_def empty_body_def tasks_of_seed seed_fields)
  have h: "handle Map.empty seed_db ''user_001'' ?req ''task_004'' 1696000000000 = Some ?c"
    by (simp add: handle_def request_to_def route_collection)
  have h7: "handle Map.empty seed_db ''user_001'' ?req7 ''task_004'' 1696000000000 = Some ?c7"
    by (simp add: handle_def request_to_def route_collection)
  have v: "createTaskInputSchema Map.empty (validationData ''user_001'' ?b)"
    by (simp add: createTaskInputSchema_def validationData_def empty_body_def or_null_def
        nullable_len_def nullable_date_def status_enum_def)
  have v7: "createTaskInputSchema Map.empty (validationData ''user_001'' ?b7)"
    by (simp add: createTaskInputSchema_def validationData_def empty_body_def or_null_def
        nullable_len_def nullable_date_def status_enum_def)
  have n: "next_order seed_db ''user_001'' = Some 3"
    by (simp add: next_order_def max_order_def int4_def seed_defs)
  have c: "?c = ((201, TaskBody (new_row (validationData ''user_001'' ?b) 3 ''task_004'' 1696000000000)),
                 seed_db @ [new_row (validationData ''user_001'' ?b) 3 ''task_004'' 1696000000000])"
    using v n
    by (simp add: create_task_def Let_def sql_insert_def new_row_def int4_def validationData_def
        empty_body_def seed_defs)
  have c7: "?c7 = ((201, TaskBody (new_row (validationData ''user_001'' ?b7) 7 ''task_004'' 1696000000000)),
                 seed_db @ [new_row (validationData ''user_001'' ?b7) 7 ''task_004'' 1696000000000])"
    using v7
    by (simp add: create_task_def Let_def sql_insert_def new_row_def int4_def validationData_def
        empty_body_def seed_defs)
  have o: "map order_index (tasks_of (snd ?c) ''user_001'') = [1, 2, 3]"
    unfolding c by (simp add: tasks_of_def new_row_def validationData_def seed_defs)
  have o7: "map order_index (tasks_of (snd ?c7) ''user_001'') = [1, 2, 7]"
    unfolding c7 by (simp add: tasks_of_def new_row_def validationData_def seed_defs)
  from h have "handle Map.empty seed_db ''user_001'' ?req ''task_004'' 1696000000000
      = Some (fst ?c, snd ?c)" by simp
  with uq ne have u: "unique_order (snd ?c) ''user_001''"
    by (rule unique_order_preserved)
  from h7 have "handle Map.empty seed_db ''user_001'' ?req7 ''task_004'' 1696000000000
      = Some (fst ?c7, snd ?c7)" by simp
  with uq ne7 have u7: "unique_order (snd ?c7) ''user_001''"
    by (rule unique_order_preserved)
  have f: "fst (fst ?c) = 201" by (simp add: c)
  from uq ne h f o u ne7 o7 u7 show ?thesis by (intro conjI)
qed

text \<open>
  Claim C8 as it was stated fails. On the seeded table the order indices of user_001,
  1 and 2, are distinct. A create of that user with a title and the order index 2 is
  answered 201 and stores that index: the user then has two tasks at index 2.
\<close>

theorem unique_order_counterexample:
  "unique_order seed_db ''user_001'' \<and>
   order_taken seed_db ''user_001''
     (request_to POST [''api'', ''tasks'']
        (empty_body\<lparr>b_title := Some (Some ''Buy milk''), b_order_index := Some (Some 2)\<rparr>)) \<and>
   handle Map.empty seed_db ''user_001''
     (request_to POST [''api'', ''tasks'']
        (empty_body\<lparr>b_title := Some (Some ''Buy milk''), b_order_index := Some (Some 2)\<rparr>))
     ''task_004'' 1696000000000
     = Some (create_task Map.empty seed_db ''user_001''
               (empty_body\<lparr>b_title := Some (Some ''Buy milk''), b_order_index := Some (Some 2)\<rparr>)
               ''task_004'' 1696000000000) \<and>
   fst (fst (create_task Map.empty seed_db ''user_001''
               (empty_body\<lparr>b_title := Some (Some ''Buy milk''), b_order_index := Some (Some 2)\<rparr>)
               ''task_004'' 1696000000000)) = 201 \<and>
   map order_index (tasks_of (snd (create_task Map.empty seed_db ''user_001''
               (empty_body\<lparr>b_title := Some (Some ''Buy milk''), b_order_index := Some (Some 2)\<rparr>)
               ''task_004'' 1696000000000)) ''user_001'') = [1, 2, 2] \<and>
   \<not> unique_order (snd (create_task Map.empty seed_db ''user_001''
               (empty_body\<lparr>b_title := Some (Some ''Buy milk''), b_order_index := Some (Some 2)\<rparr>)
               ''task_004'' 1696000000000)) ''user_001''"
proof -
  let ?b = "empty_body\<lparr>b_title := Some (Some ''Buy milk''), b_order_index := Some (Some 2)\<rparr>"
  let ?req = "request_to POST [''api'', ''tasks''] ?b"
  let ?c = "create_task Map.empty seed_db ''user_001'' ?b ''task_004'' 1696000000000"
  have uq: "unique_order seed_db ''user_001''"
    by (simp add: unique_order_def tasks_of_seed seed_fields)
  have h: "handle Map.empty seed_db ''user_001'' ?req ''task_004'' 1696000000000 = Some ?c"
    by (simp add: handle_def request_to_def route_collection)
  have v: "createTaskInputSchema Map.empty (validationData ''user_001'' ?b)"
    by (simp add: createTaskInputSchema_def validationData_def empty_body_def or_null_def
        nullable_len_def nullable_date_def status_enum_def)
  have c: "?c = ((201, TaskBody (new_row (validationData ''user_001'' ?b) 2 ''task_004'' 1696000000000)),
                 seed_db @ [new_row (validationData ''user_001'' ?b) 2 ''task_004'' 1696000000000])"
    using v
    by (simp add: create_task_def Let_def sql_insert_def new_row_def int4_def validationData_def
        empty_body_def seed_defs)
  have o: "map order_index (tasks_of (snd ?c) ''user_001'') = [1, 2, 2]"
    unfolding c by (simp add: tasks_of_def new_row_def validationData_def seed_defs)
  then have "\<not> unique_order (snd ?c) ''user_001''"
    by (simp add: unique_order_def)
  moreover have "order_taken seed_db ''user_001'' ?req"
    by (simp add: order_taken_def request_to_def route_collection empty_body_def tasks_of_seed
        seed_fields)
  moreover have "fst (fst ?c) = 201" by (simp add: c)
  ultimately show ?thesis using uq h o by (intro conjI)
qed

section \<open>Properties of the listing\<close>

lemma set_order_by [simp]: "set (order_by f dir rows) = set rows"
  by (simp add: order_by_def order_by_asc_def)

lemma length_order_by [simp]: "length (order_by f dir rows) = length rows"
  by (simp add: order_by_def order_by_asc_def)

text \<open>The listing answers 200 with a page unless the offset is no 64-bit integer.\<close>

lemma list_tasks_answer:
  "list_tasks d u q now =
     (if 9223372036854775808 \<le> effective_offset q then internal_error now
      else (200, TaskPageBody
              (take (nat (effective_limit q))
                 (drop (nat (effective_offset q))
                    (order_by (sortField q) (sortDirection q) (filter (where_clause u q) d))))
              (length (filter (where_clause u q) d))))"
  by (simp add: list_tasks_def Let_def)

lemma list_tasks_sound:
  assumes "list_tasks d u q now = (code, TaskPageBody page n)"
  shows "(\<forall>t \<in> set page. t \<in> set d \<and> where_clause u q t) \<and>
         n = length (filter (where_clause u q) d) \<and>
         length page \<le> n \<and> int (length page) \<le> effective_limit q"
proof -
  let ?rows = "filter (where_clause u q) d"
  let ?sorted = "order_by (sortField q) (sortDirection q) ?rows"
  from assms have page: "page = take (nat (effective_limit q)) (drop (nat (effective_offset q)) ?sorted)"
    and len: "n = length ?rows"
    by (simp_all add: list_tasks_answer internal_error_def error_json_def split: if_splits)
  have "set page \<subseteq> set ?sorted"
    unfolding page by (meson set_take_subset set_drop_subset subset_trans)
  then have mem: "\<forall>t \<in> set page. t \<in> set d \<and> where_clause u q t" by auto
  have "length page \<le> length ?sorted" unfolding page by simp
  then have le: "length page \<le> n" by (simp add: len)
  have "1 \<le> effective_limit q" by (simp add: effective_limit_def)
  then have lim: "int (length page) \<le> effective_limit q" unfolding page by simp
  from mem len le lim show ?thesis by simp
qed

lemma effective_limit_range: "1 \<le> effective_limit q \<and> effective_limit q \<le> 1000"
  by (simp add: effective_limit_def)

lemma effective_limit_clamp:
  "parseInt (with_default (limitParam q) ''10'') = Some n \<Longrightarrow> n \<noteq> 0 \<Longrightarrow>
   effective_limit q = min (max n 1) 1000"
  by (simp add: effective_limit_def parse_or_def)

lemma effective_offset_floor:
  "parseInt (with_default (offsetParam q) ''0'') = Some n \<Longrightarrow> effective_offset q = max n 0"
  by (auto simp add: effective_offset_def parse_or_def)

lemmas parseInt_defs = parseInt_def is_space_def digit_def digits_value_def to_double_def
  excess_bits.simps

text \<open>An offset that is a number, and yet the request is answered with an error.\<close>

lemma offset_out_of_range:
  "list_tasks d u (empty_query\<lparr>offsetParam := Some ''9223372036854775808''\<rparr>) now = internal_error now"
proof -
  have "parseInt ''9223372036854775808'' = Some 9223372036854775808"
    by (simp add: parseInt_defs)
  then have "effective_offset (empty_query\<lparr>offsetParam := Some ''9223372036854775808''\<rparr>)
      = 9223372036854775808"
    by (simp add: effective_offset_def with_default_def parse_or_def empty_query_def)
  then show ?thesis by (simp add: list_tasks_answer)
qed

lemma sort_fallback:
  assumes "with_default (sort_by q) ''order_index'' \<notin> set validSortFields"
  shows "list_tasks d u q now = list_tasks d u (q\<lparr>sort_by := Some ''order_index''\<rparr>) now"
proof -
  let ?q' = "q\<lparr>sort_by := Some ''order_index''\<rparr>"
  have w: "where_clause u ?q' = where_clause u q"
    by (rule ext) (simp add: where_clause_def)
  have f: "sortField ?q' = sortField q"
    using assms by (simp add: sortField_def with_default_def validSortFields_def Let_def)
  have o: "sortDirection ?q' = sortDirection q" "effective_limit ?q' = effective_limit q"
    "effective_offset ?q' = effective_offset q"
    by (simp_all add: sortDirection_def effective_limit_def effective_offset_def)
  show ?thesis by (simp add: list_tasks_answer w f o)
qed

lemma sort_fallback_field:
  "with_default (sort_by q) ''order_index'' \<notin> set validSortFields \<Longrightarrow> sortField q = ''order_index''"
  by (simp add: sortField_def Let_def)

subsection \<open>\<open>LIKE\<close> without wildcards is the substring test\<close>

lemma like_literal_prefix:
  "plain_text p \<Longrightarrow> like_match (p @ q) s \<longleftrightarrow> (\<exists>r. s = p @ r \<and> like_match q r)"
proof (induction p arbitrary: s)
  case Nil
  show ?case by simp
next
  case (Cons c p)
  then have c: "c \<noteq> CHR ''%''" "c \<noteq> CHR ''_''" "c \<noteq> CHR 0x5C" and p: "plain_text p"
    by (simp_all add: plain_text_def)
  show ?case
  proof (cases s)
    case Nil
    with c show ?thesis by simp
  next
    case (Cons a s')
    with c Cons.IH[OF p, of s'] show ?thesis by auto
  qed
qed

lemma like_percent:
  "like_match (CHR ''%'' # q) s \<longleftrightarrow> (\<exists>a b. s = a @ b \<and> like_match q b)"
proof (induction s)
  case Nil
  show ?case by simp
next
  case (Cons x s)
  have "like_match (CHR ''%'' # q) (x # s) \<longleftrightarrow> like_match q (x # s) \<or> like_match (CHR ''%'' # q) s"
    by simp
  also have "\<dots> \<longleftrightarrow> like_match q (x # s) \<or> (\<exists>a b. s = a @ b \<and> like_match q b)"
    by (simp only: Cons.IH)
  also have "\<dots> \<longleftrightarrow> (\<exists>a b. x # s = a @ b \<and> like_match q b)"
  proof
    assume "like_match q (x # s) \<or> (\<exists>a b. s = a @ b \<and> like_match q b)"
    then show "\<exists>a b. x # s = a @ b \<and> like_match q b"
    proof
      assume "like_match q (x # s)"
      then have "x # s = [] @ (x # s) \<and> like_match q (x # s)" by simp
      then show ?thesis by blast
    next
      assume "\<exists>a b. s = a @ b \<and> like_match q b"
      then obtain a b where "s = a @ b" "like_match q b" by blast
      then have "x # s = (x # a) @ b \<and> like_match q b" by simp
      then show ?thesis by blast
    qed
  next
    assume "\<exists>a b. x # s = a @ b \<and> like_match q b"
    then obtain a b where ab: "x # s = a @ b" "like_match q b" by blast
    show "like_match q (x # s) \<or> (\<exists>a b. s = a @ b \<and> like_match q b)"
    proof (cases a)
      case Nil
      with ab show ?thesis by simp
    next
      case (Cons y a')
      with ab have "s = a' @ b" by simp
      with ab(2) show ?thesis by blast
    qed
  qed
  finally show ?case .
qed

lemma like_contains:
  assumes "plain_text f"
  shows "like_match (''%'' @ f @ ''%'') s \<longleftrightarrow> sublist f s"
proof -
  have any: "like_match ''%'' r" for r by (induction r) simp_all
  have "like_match (''%'' @ f @ ''%'') s \<longleftrightarrow> (\<exists>a b. s = a @ b \<and> like_match (f @ ''%'') b)"
    using like_percent[of "f @ ''%''" s] by simp
  also have "\<dots> \<longleftrightarrow> (\<exists>a b r. s = a @ b \<and> b = f @ r)"
    using like_literal_prefix[OF assms, of "''%''"] any by blast
  also have "\<dots> \<longleftrightarrow> sublist f s"
    by (auto simp: sublist_def)
  finally show ?thesis .
qed


subsection \<open>What a listed task satisfies\<close>

lemma when_given_Some: "when_given (Some s) cond \<longleftrightarrow> s = [] \<or> cond s"
  by (simp add: when_given_def)

lemma listed_task:
  assumes "list_tasks d u q now = (code, TaskPageBody page n)" and "t \<in> set page"
  shows "user_id t = u"
    and "filter_status q = Some s \<Longrightarrow> s \<noteq> [] \<Longrightarrow> status t = s"
    and "filter_category q = Some s \<Longrightarrow> s \<noteq> [] \<Longrightarrow> category t = Some s"
    and "filter_priority q = Some s \<Longrightarrow> s \<noteq> [] \<Longrightarrow> priority t = Some s"
    and "filter_tags q = Some s \<Longrightarrow> s \<noteq> [] \<Longrightarrow> sql_like (tags t) (''%'' @ s @ ''%'')"
    and "filter_tags q = Some s \<Longrightarrow> s \<noteq> [] \<Longrightarrow> plain_text s \<Longrightarrow>
         \<exists>g. tags t = Some g \<and> sublist s g"
    and "search_query q = Some s \<Longrightarrow> s \<noteq> [] \<Longrightarrow>
         ilike_match (''%'' @ s @ ''%'') (title t) \<or> sql_ilike (description t) (''%'' @ s @ ''%'')
         \<or> sql_ilike (tags t) (''%'' @ s @ ''%'')"
proof -
  from list_tasks_sound[OF assms(1)] assms(2) have w: "where_clause u q t" by blast
  show "user_id t = u" using w by (simp add: where_clause_def)
  show "filter_status q = Some s \<Longrightarrow> s \<noteq> [] \<Longrightarrow> status t = s"
    using w by (simp add: where_clause_def when_given_Some)
  show "filter_category q = Some s \<Longrightarrow> s \<noteq> [] \<Longrightarrow> category t = Some s"
    using w by (simp add: where_clause_def when_given_Some)
  show "filter_priority q = Some s \<Longrightarrow> s \<noteq> [] \<Longrightarrow> priority t = Some s"
    using w by (simp add: where_clause_def when_given_Some)
  show like: "filter_tags q = Some s \<Longrightarrow> s \<noteq> [] \<Longrightarrow> sql_like (tags t) (''%'' @ s @ ''%'')"
    using w by (simp add: where_clause_def when_given_Some)
  show "filter_tags q = Some s \<Longrightarrow> s \<noteq> [] \<Longrightarrow> plain_text s \<Longrightarrow>
         \<exists>g. tags t = Some g \<and> sublist s g"
    using like like_contains[of s] by (cases "tags t") (simp_all add: sql_like_def)
  show "search_query q = Some s \<Longrightarrow> s \<noteq> [] \<Longrightarrow>
         ilike_match (''%'' @ s @ ''%'') (title t) \<or> sql_ilike (description t) (''%'' @ s @ ''%'')
         \<or> sql_ilike (tags t) (''%'' @ s @ ''%'')"
    using w by (simp add: where_clause_def when_given_Some search_cond_def sql_ilike_def Let_def)
qed

text \<open>
  Claim C2 holds but for the tag filter. The text of the filter goes into the
  \<^verbatim>\<open>LIKE\<close> pattern as it is, so an underscore in it stands for any character: on the
  seeded table the filter \<open>_\<close> returns both tasks of user_001, although no tag list
  of theirs contains an underscore.
\<close>

theorem tag_filter_wildcard:
  "list_tasks seed_db ''user_001'' (empty_query\<lparr>filter_tags := Some ''_''\<rparr>) now
     = (200, TaskPageBody [task_001, task_002] 2) \<and>
   tags task_001 = Some ''report,urgent,q4'' \<and> \<not> sublist ''_'' ''report,urgent,q4'' \<and>
   tags task_002 = Some ''shopping,essentials'' \<and> \<not> sublist ''_'' ''shopping,essentials''"
proof -
  let ?q = "empty_query\<lparr>filter_tags := Some ''_''\<rparr>"
  have w: "filter (where_clause ''user_001'' ?q) seed_db = [task_001, task_002]"
    by (simp add: where_clause_def when_given_def empty_query_def sql_like_def seed_defs)
  have s: "order_by (sortField ?q) (sortDirection ?q) [task_001, task_002] = [task_001, task_002]"
    by (simp add: sortField_def sortDirection_def with_default_def validSortFields_def
        empty_query_def order_by_def order_by_asc_def seed_defs)
  have l: "effective_limit ?q = 10" "effective_offset ?q = 0"
    by (simp_all add: effective_limit_def effective_offset_def with_default_def empty_query_def
        parse_or_def parseInt_defs)
  have "list_tasks seed_db ''user_001'' ?q now = (200, TaskPageBody [task_001, task_002] 2)"
    by (simp add: list_tasks_answer w s l)
  moreover have "tags task_001 = Some ''report,urgent,q4''" "tags task_002 = Some ''shopping,essentials''"
    by (simp_all add: seed_defs)
  moreover have "\<not> sublist ''_'' ''report,urgent,q4''" "\<not> sublist ''_'' ''shopping,essentials''"
    by (simp_all add: sublist_Cons_right)
  ultimately show ?thesis by simp
qed

text \<open>
  Claim C9 holds but for the limit 0. \<^verbatim>\<open>parseInt('0') || 10\<close> is 10, so a requested
  limit of 0 is not clamped to 1: on the seeded table the request returns both tasks
  of user_001.
\<close>

theorem limit_zero_not_clamped:
  "parseInt ''0'' = Some 0 \<and>
   effective_limit (empty_query\<lparr>limitParam := Some ''0''\<rparr>) = 10 \<and>
   min (max 0 1) 1000 = (1::int) \<and>
   list_tasks seed_db ''user_001'' (empty_query\<lparr>limitParam := Some ''0''\<rparr>) now
     = (200, TaskPageBody [task_001, task_002] 2)"
proof -
  let ?q = "empty_query\<lparr>limitParam := Some ''0''\<rparr>"
  have p: "parseInt ''0'' = Some 0"
    by (simp add: parseInt_defs)
  have w: "filter (where_clause ''user_001'' ?q) seed_db = [task_001, task_002]"
    by (simp add: where_clause_def when_given_def empty_query_def seed_defs)
  have s: "order_by (sortField ?q) (sortDirection ?q) [task_001, task_002] = [task_001, task_002]"
    by (simp add: sortField_def sortDirection_def with_default_def validSortFields_def
        empty_query_def order_by_def order_by_asc_def seed_defs)
  have l: "effective_limit ?q = 10"
    by (simp add: effective_limit_def with_default_def empty_query_def parse_or_def p)
  have o: "effective_offset ?q = 0"
    by (simp add: effective_offset_def with_default_def empty_query_def parse_or_def p)
  have "list_tasks seed_db ''user_001'' ?q now = (200, TaskPageBody [task_001, task_002] 2)"
    by (simp add: list_tasks_answer w s l o)
  with p l show ?thesis by simp
qed

end
